theory Spec2Isabelle
  imports Main
begin

section \<open>JavaScript strings and values\<close>

text \<open>
  A JavaScript string is a sequence of UTF-16 code units. The program handles Arabic
  program names, so a code unit is modelled as a natural number (every value below
  65536 is a code unit) and a string as a list of them. \<open>js\<close> embeds an
  ASCII literal.
\<close>

type_synonym jsstring = "nat list"

definition js :: "string \<Rightarrow> jsstring" where
  "js s = map of_char s"

text \<open>
  The character classes used by the regular expressions of the source, none of which
  carries the \<open>i\<close> or \<open>u\<close> flag: \<open>\s\<close> (white space and line terminators,
  also what \<open>trim\<close> removes), \<open>\d\<close>, \<open>[A-Z]\<close>, \<open>[A-Za-z]\<close> and
  \<open>[a-zA-Z0-9]\<close>.
\<close>

definition isWhiteSpace :: "nat \<Rightarrow> bool" where
  "isWhiteSpace c \<longleftrightarrow>
     (9 \<le> c \<and> c \<le> 13) \<or> c = 32 \<or> c = 160 \<or> c = 5760 \<or> (8192 \<le> c \<and> c \<le> 8202)
     \<or> c = 8232 \<or> c = 8233 \<or> c = 8239 \<or> c = 8287 \<or> c = 12288 \<or> c = 65279"

definition isDigit :: "nat \<Rightarrow> bool" where
  "isDigit c \<longleftrightarrow> 48 \<le> c \<and> c \<le> 57"

definition isUpperAZ :: "nat \<Rightarrow> bool" where
  "isUpperAZ c \<longleftrightarrow> 65 \<le> c \<and> c \<le> 90"

definition isLowerAZ :: "nat \<Rightarrow> bool" where
  "isLowerAZ c \<longleftrightarrow> 97 \<le> c \<and> c \<le> 122"

definition isLetter :: "nat \<Rightarrow> bool" where
  "isLetter c \<longleftrightarrow> isUpperAZ c \<or> isLowerAZ c"

definition isAlnum :: "nat \<Rightarrow> bool" where
  "isAlnum c \<longleftrightarrow> isLetter c \<or> isDigit c"

text \<open>\<open>String.prototype.trim\<close>.\<close>

definition trim :: "jsstring \<Rightarrow> jsstring" where
  "trim s = rev (dropWhile isWhiteSpace (rev (dropWhile isWhiteSpace s)))"

text \<open>
  \<open>s.split(/\s+/)\<close>: the pieces between maximal runs of white space. A run at the
  start or at the end of the string leaves an empty piece there, and the empty string
  splits into one empty piece.
\<close>

function splitWhiteSpace :: "jsstring \<Rightarrow> jsstring list" where
  "splitWhiteSpace s =
     (case dropWhile (\<lambda>c. \<not> isWhiteSpace c) s of
        [] \<Rightarrow> [s]
      | _ # rest \<Rightarrow> takeWhile (\<lambda>c. \<not> isWhiteSpace c) s # splitWhiteSpace (dropWhile isWhiteSpace rest))"
  by pat_completeness auto
termination
proof (relation "measure length")
  show "wf (measure length)" by simp
next
  fix s :: jsstring and x21 :: nat and rest :: jsstring
  assume a: "dropWhile (\<lambda>c. \<not> isWhiteSpace c) s = x21 # rest"
  have "length (dropWhile isWhiteSpace rest) \<le> length rest"
    by (rule length_dropWhile_le)
  also have "\<dots> < length (x21 # rest)" by simp
  also have "\<dots> \<le> length s"
    unfolding a [symmetric] by (rule length_dropWhile_le)
  finally show "(dropWhile isWhiteSpace rest, s) \<in> measure length" by simp
qed

declare splitWhiteSpace.simps [simp del]

text \<open>\<open>^[A-Za-z]+\d+$\<close>: one or more letters, then one or more digits, and nothing else.\<close>

definition matchesLettersDigits :: "jsstring \<Rightarrow> bool" where
  "matchesLettersDigits s \<longleftrightarrow>
     takeWhile isLetter s \<noteq> [] \<and> dropWhile isLetter s \<noteq> [] \<and> list_all isDigit (dropWhile isLetter s)"

text \<open>
  \<open>toUpperCase\<close> on a code unit of \<open>[a-zA-Z0-9]\<close>, the only place where the
  first variant of the program uppercases.
\<close>

definition asciiUpper :: "nat \<Rightarrow> nat" where
  "asciiUpper c = (if isLowerAZ c then c - 32 else c)"

text \<open>\<open>s.startsWith(t)\<close>.\<close>

definition startsWith :: "jsstring \<Rightarrow> jsstring \<Rightarrow> bool" where
  "startsWith s t \<longleftrightarrow> take (length t) s = t"

text \<open>
  A value stored in a row: a string, a number (only the literal \<open>1\<close> occurs), or
  \<open>undefined\<close>.
\<close>

datatype jsval = Undefined | Str jsstring | Num nat

text \<open>
  \<open>TypeError\<close> is what reading a property of \<open>undefined\<close> or \<open>null\<close> throws.
  \<open>EmptyInputError\<close> is the kind of error the specification names for an empty
  record sequence; no statement of the source throws it.
\<close>

datatype js_error = TypeError | EmptyInputError

record InputRecord =
  name :: jsstring
  description :: jsstring

text \<open>
  A row object. The fields are the keys some object literal of the source assigns; the
  other columns of the target schema are never assigned (see \<open>rowGet\<close> below).
\<close>

record OutputRow =
  Parent_ID_number :: jsval
  ID_number :: jsval
  Short_name :: jsval
  Description :: jsval
  Description_format :: jsval
  Scale_values :: jsval
  Scale_configuration :: jsval
  Exported_ID :: jsval
  Is_framework :: jsval
  Taxonomy :: jsval

section \<open>The first variant (the module exporting \<open>cleanAndReformatCompetencies\<close>)\<close>

text \<open>\<open>generateCode\<close>: a name that looks like a code is kept, otherwise the acronym.\<close>

definition acronym :: "jsstring list \<Rightarrow> jsstring" where
  "acronym ws = concat (map (\<lambda>w. case filter isAlnum w of [] \<Rightarrow> [] | c # _ \<Rightarrow> [asciiUpper c]) ws)"

definition generateCode :: "jsstring \<Rightarrow> jsstring" where
  "generateCode name0 =
     (if name0 = [] then []
      else let nm = trim name0 in
        if matchesLettersDigits nm then nm
        else let code = acronym (splitWhiteSpace nm) in
          if code \<noteq> [] then code else nm)"

text \<open>
  \<open>structureMap\<close> and \<open>subCategoryParents\<close> are plain objects used as
  dictionaries. \<open>structureMap\<close> is created by every call and updated while the
  records are scanned, so it is threaded through the loop.
\<close>

record Area =
  area_id :: jsstring
  area_parent :: jsstring

definition initialStructureMap :: "jsstring \<Rightarrow> (jsstring \<rightharpoonup> Area)" where
  "initialStructureMap prefix =
     [js ''Knowledge'' \<mapsto> \<lparr>area_id = prefix @ js ''-K'', area_parent = []\<rparr>,
      js ''Skills'' \<mapsto> \<lparr>area_id = prefix @ js ''-S'', area_parent = []\<rparr>,
      js ''Competence'' \<mapsto> \<lparr>area_id = prefix @ js ''-C'', area_parent = []\<rparr>]"

definition subCategoryParents :: "jsstring \<rightharpoonup> jsstring" where
  "subCategoryParents =
     [js ''Theoretical Understanding'' \<mapsto> js ''Knowledge'',
      js ''Applied Knowledge'' \<mapsto> js ''Knowledge'',
      js ''Practical Application'' \<mapsto> js ''Knowledge'',
      js ''Communication Skills'' \<mapsto> js ''Skills'',
      js ''Generic Problem Solving'' \<mapsto> js ''Skills'',
      js ''Critical Thinking'' \<mapsto> js ''Skills'',
      js ''Autonomy & Responsibility'' \<mapsto> js ''Competence'']"

text \<open>
  Reading \<open>obj[key]\<close> and testing \<open>key in obj\<close> on a plain object also find the
  properties inherited from \<open>Object.prototype\<close>. Their values are built-in
  functions (an object for \<open>__proto__\<close>): truthy, and without a property \<open>id\<close>
  or \<open>parent\<close>.
\<close>

definition objectPrototypeKeys :: "jsstring list" where
  "objectPrototypeKeys =
     [js ''constructor'', js ''__defineGetter__'', js ''__defineSetter__'', js ''hasOwnProperty'',
      js ''__lookupGetter__'', js ''__lookupSetter__'', js ''isPrototypeOf'',
      js ''propertyIsEnumerable'', js ''toString'', js ''valueOf'', js ''__proto__'',
      js ''toLocaleString'']"

definition STANDARD_VALUES :: "OutputRow \<Rightarrow> OutputRow" where
  \<open>STANDARD_VALUES r = r\<lparr>
     Description_format := Num 1,
     Scale_values := Str (js ''Not yet competent,Competent''),
     Scale_configuration := Str (js ''[{"scaleid":"2"},{"id":2,"scaledefault":1,"proficient":1}]''),
     Taxonomy := Str (js ''competency,competency,competency,competency,competency'')\<rparr>\<close>

definition ROW_STANDARD_VALUES :: "OutputRow \<Rightarrow> OutputRow" where
  "ROW_STANDARD_VALUES r = r\<lparr>
     Description_format := Num 1,
     Scale_values := Str [],
     Scale_configuration := Str [],
     Taxonomy := Str (js ''competency,competency,competency,competency,competency'')\<rparr>"

text \<open>An object literal before its spread: the keys it does not assign are undefined.\<close>

definition newRow :: "jsval \<Rightarrow> jsval \<Rightarrow> jsval \<Rightarrow> jsval \<Rightarrow> jsval \<Rightarrow> jsval \<Rightarrow> OutputRow" where
  "newRow parentId idNumber shortName descr isFramework exportedId =
     \<lparr>Parent_ID_number = parentId, ID_number = idNumber, Short_name = shortName,
      Description = descr, Description_format = Undefined, Scale_values = Undefined,
      Scale_configuration = Undefined, Exported_ID = exportedId, Is_framework = isFramework,
      Taxonomy = Undefined\<rparr>"

text \<open>
  The body of the loop up to the \<open>push\<close>: the parent identifier, the identifier and
  the updated \<open>structureMap\<close> for a non-empty name.
\<close>

definition defaultParentName :: "jsstring \<Rightarrow> jsstring" where
  "defaultParentName nm =
     (if startsWith nm (js ''K'') \<or> startsWith nm (js ''k'') then js ''Theoretical Understanding''
      else if startsWith nm (js ''S'') \<or> startsWith nm (js ''s'') then js ''Generic Problem Solving''
      else if startsWith nm (js ''C'') \<or> startsWith nm (js ''c'') then js ''Autonomy & Responsibility''
      else [])"

definition classify :: "jsstring \<Rightarrow> (jsstring \<rightharpoonup> Area) \<Rightarrow> jsstring \<Rightarrow> jsval \<times> jsval \<times> (jsstring \<rightharpoonup> Area)" where
  "classify prefix structureMap nm =
     (let code = generateCode nm in
      case structureMap nm of
        Some a \<Rightarrow> (Str (area_parent a), Str (area_id a), structureMap)
      | None \<Rightarrow>
          if nm \<in> set objectPrototypeKeys then (Undefined, Undefined, structureMap)
          else (case subCategoryParents nm of
            Some parentName \<Rightarrow>
              (case structureMap parentName of
                 Some parentObj \<Rightarrow>
                   (let parentId = area_id parentObj; idNumber = parentId @ js ''-'' @ code
                    in (Str parentId, Str idNumber,
                        structureMap(nm \<mapsto> \<lparr>area_id = idNumber, area_parent = parentId\<rparr>)))
               | None \<Rightarrow> (Str [], Str (prefix @ js ''-'' @ code), structureMap))
          | None \<Rightarrow>
              (let parentName = defaultParentName nm in
               case (if parentName \<noteq> [] then structureMap parentName else None) of
                 Some parentObj \<Rightarrow>
                   (Str (area_id parentObj), Str (area_id parentObj @ js ''-'' @ code), structureMap)
               | None \<Rightarrow> (Str [], Str (prefix @ js ''-'' @ code), structureMap))))"

fun processRows :: "jsstring \<Rightarrow> (jsstring \<rightharpoonup> Area) \<Rightarrow> InputRecord list \<Rightarrow> OutputRow list" where
  "processRows prefix structureMap [] = []"
| "processRows prefix structureMap (row # rest) =
     (if name row = [] then processRows prefix structureMap rest
      else (case classify prefix structureMap (name row) of
        (parentId, idNumber, structureMap') \<Rightarrow>
          ROW_STANDARD_VALUES
            (newRow parentId idNumber (Str (name row)) (Str (description row)) (Str []) Undefined)
          # processRows prefix structureMap' rest))"

definition frameworkRow :: "InputRecord \<Rightarrow> jsstring \<Rightarrow> OutputRow" where
  "frameworkRow mainFramework rootRowId =
     STANDARD_VALUES
       (newRow (Str []) (Str rootRowId) (Str (name mainFramework)) (Str (description mainFramework))
          (Num 1) (Str []))"

text \<open>
  \<open>data[0]\<close> of an empty array is \<open>undefined\<close>, and reading its \<open>name\<close> throws a
  \<open>TypeError\<close>. Otherwise the loop runs over \<open>data[1]\<close>, \<open>data[2]\<close>, ...
\<close>

definition cleanAndReformatCompetencies ::
    "InputRecord list \<Rightarrow> jsstring \<Rightarrow> jsstring \<Rightarrow> js_error + OutputRow list" where
  "cleanAndReformatCompetencies data programName fileId =
     (case data of
        [] \<Rightarrow> Inl TypeError
      | mainFramework # rest \<Rightarrow>
          (let prefix = generateCode (if name mainFramework \<noteq> [] then name mainFramework else programName)
           in Inr (frameworkRow mainFramework fileId
                   # processRows prefix (initialStructureMap prefix) rest)))"

section \<open>The second variant (\<open>batch_converter.js\<close>)\<close>

text \<open>
  Two built-ins of the host are not part of the program and are parameters of the model:
  \<open>unicodeUpper\<close> is \<open>toUpperCase\<close> on a string with a code unit outside ASCII
  (on an ASCII string \<open>toUpperCase\<close> maps \<open>a\<close>..\<open>z\<close> to \<open>A\<close>..\<open>Z\<close>), and
  \<open>inheritedToString\<close> is the text a template literal renders for the value of the
  property of \<open>Object.prototype\<close> with the given name.
\<close>

record Host =
  unicodeUpper :: "jsstring \<Rightarrow> jsstring"
  inheritedToString :: "jsstring \<Rightarrow> jsstring"

definition toUpperCase :: "Host \<Rightarrow> jsstring \<Rightarrow> jsstring" where
  "toUpperCase h s = (if list_all (\<lambda>c. c < 128) s then map asciiUpper s else unicodeUpper h s)"

definition STANDARD_VALUES_bc :: "OutputRow \<Rightarrow> OutputRow" where
  \<open>STANDARD_VALUES_bc r = r\<lparr>
     Description_format := Num 1,
     Scale_values := Str (js ''Not yet competent,Competent''),
     Scale_configuration :=
       Str (js ''[{""scaleid"":""2""},{""id"":2,""scaledefault"":1,""proficient"":1}]''),
     Taxonomy := Str (js ''competency'')\<rparr>\<close>

definition MAJOR_AREA_MAP :: "jsstring \<rightharpoonup> jsstring" where
  "MAJOR_AREA_MAP =
     [js ''Knowledge'' \<mapsto> js ''K'',
      js ''Theoretical Understanding'' \<mapsto> js ''K-TU'',
      js ''Practical Application'' \<mapsto> js ''K-PA'',
      js ''Skills'' \<mapsto> js ''S'',
      js ''Generic Problem Solving'' \<mapsto> js ''S-GPS'',
      js ''Communication Skills'' \<mapsto> js ''S-CS'',
      js ''Competence'' \<mapsto> js ''C'',
      js ''Autonomy & Responsibility'' \<mapsto> js ''C-ARC'']"

text \<open>The keys of the first eight entries are Arabic program names, given by their code units.\<close>

definition PROGRAM_PREFIX_MAP :: "jsstring \<rightharpoonup> jsstring" where
  "PROGRAM_PREFIX_MAP =
     [
      [1605, 1582, 1585, 1580, 1575, 1578, 32, 1576, 1585, 1606, 1575, 1605, 1580, 32,
       1575, 1583, 1575, 1585, 1577, 32, 1575, 1604, 1605, 1608, 1575, 1585, 1583, 32,
       1575, 1604, 1576, 1588, 1585, 1610, 1577]
        \<mapsto> js ''HR'',
      [1605, 1582, 1585, 1580, 1575, 1578, 32, 1576, 1585, 1606, 1575, 1605, 1580, 32,
       1584, 1603, 1575, 1569, 32, 1575, 1604, 1575, 1593, 1605, 1575, 1604]
        \<mapsto> js ''BI'',
      [1605, 1582, 1585, 1580, 1575, 1578, 32, 1576, 1585, 1606, 1575, 1605, 1580, 32,
       1575, 1604, 1578, 1603, 1606, 1608, 1604, 1608, 1580, 1610, 1575, 32, 1575, 1604,
       1605, 1575, 1604, 1610, 1577]
        \<mapsto> js ''FT'',
      [1605, 1582, 1585, 1580, 1575, 1578, 32, 1576, 1585, 1606, 1575, 1605, 1580, 32,
       1575, 1604, 1578, 1587, 1608, 1610, 1602, 32, 1575, 1604, 1585, 1602, 1605, 1610]
        \<mapsto> js ''DM'',
      [1605, 1582, 1585, 1580, 1575, 1578, 32, 1576, 1585, 1606, 1575, 1605, 1580, 32,
       1575, 1604, 1605, 1581, 1575, 1587, 1576, 1577]
        \<mapsto> js ''AC'',
      [1605, 1582, 1585, 1580, 1575, 1578, 32, 1576, 1585, 1606, 1575, 1605, 1580, 32,
       1602, 1587, 1605, 32, 1575, 1604, 1593, 1604, 1608, 1605, 32, 1575, 1604, 1580,
       1605, 1585, 1603, 1610, 1577, 32, 1608, 1575, 1604, 1590, 1585, 1610, 1576, 1610,
       1577]
        \<mapsto> js ''CT'',
      [1605, 1582, 1585, 1580, 1575, 1578, 32, 1576, 1585, 1606, 1575, 1605, 1580, 32,
       1578, 1603, 1606, 1608, 1604, 1608, 1580, 1610, 1575, 32, 1605, 1593, 1604, 1608,
       1605, 1575, 1578, 32, 1575, 1604, 1575, 1593, 1605, 1575, 1604]
        \<mapsto> js ''IT'',
      [1605, 1582, 1585, 1580, 1575, 1578, 32, 1576, 1585, 1606, 1575, 1605, 1580, 32,
       1575, 1583, 1575, 1585, 1577, 32, 1575, 1604, 1575, 1593, 1605, 1575, 1604]
        \<mapsto> js ''BA'',
      js ''Family Reform and Guidance'' \<mapsto> js ''FRG'']"

text \<open>
  \<open>s.replace(/pat/g, rep)\<close> for a pattern that is a literal, non-empty text: every
  occurrence, found from left to right without overlaps, is replaced.
\<close>

function replaceAll :: "jsstring \<Rightarrow> jsstring \<Rightarrow> jsstring \<Rightarrow> jsstring" where
  "replaceAll pat rep [] = []"
| "replaceAll pat rep (c # cs) =
     (if pat \<noteq> [] \<and> startsWith (c # cs) pat
      then rep @ replaceAll pat rep (drop (length pat) (c # cs))
      else c # replaceAll pat rep cs)"
  by pat_completeness auto
termination
  by (relation "measure (\<lambda>(pat, rep, s). length s)") auto

text \<open>
  \<open>s.split(/\s+-\s*/)[0]\<close>: the text before the leftmost place where a run of white
  space is followed by a hyphen, the whole string when there is none.
\<close>

fun beforeDashSeparator :: "jsstring \<Rightarrow> jsstring" where
  "beforeDashSeparator [] = []"
| "beforeDashSeparator (c # cs) =
     (if isWhiteSpace c \<and> startsWith (dropWhile isWhiteSpace cs) (js ''-'') then []
      else c # beforeDashSeparator cs)"

definition createFrameworkPrefix :: "Host \<Rightarrow> jsstring \<Rightarrow> jsstring" where
  "createFrameworkPrefix h nm =
     (let cleanName =
            beforeDashSeparator
              (replaceAll [1602, 1587, 1605, 32] []
                (replaceAll [1605, 1582, 1585, 1580, 1575, 1578, 32, 1576, 1585, 1606, 1575, 1605, 1580, 32] [] nm));
          parts = filter (\<lambda>p. length p > 0) (splitWhiteSpace cleanName)
      in if length parts > 1 then
           (let englishMatch = filter isUpperAZ cleanName in
            if englishMatch \<noteq> [] \<and> length englishMatch \<ge> 2 then englishMatch
            else toUpperCase h (concat (map (take 1) (take 2 parts))))
         else toUpperCase h (take 3 cleanName))"

text \<open>\<open>PROGRAM_PREFIX_MAP[programName] || createFrameworkPrefix(programName)\<close>, as a template literal renders it.\<close>

definition englishPrefix :: "Host \<Rightarrow> jsstring \<Rightarrow> jsstring" where
  "englishPrefix h programName =
     (case PROGRAM_PREFIX_MAP programName of
        Some p \<Rightarrow> p
      | None \<Rightarrow> if programName \<in> set objectPrototypeKeys then inheritedToString h programName
                else createFrameworkPrefix h programName)"

text \<open>\<open>^[Kk]\d+$\<close> and its siblings: one of the given letters, then one or more digits.\<close>

definition matchesInitialDigits :: "nat list \<Rightarrow> jsstring \<Rightarrow> bool" where
  "matchesInitialDigits initials s \<longleftrightarrow>
     (case s of [] \<Rightarrow> False | c # ds \<Rightarrow> c \<in> set initials \<and> ds \<noteq> [] \<and> list_all isDigit ds)"

text \<open>\<open>MAJOR_AREA_MAP[key]\<close> for a key written in the source, as a template literal renders it.\<close>

definition areaCodeOf :: "jsstring \<Rightarrow> jsstring" where
  "areaCodeOf key = (case MAJOR_AREA_MAP key of Some c \<Rightarrow> c | None \<Rightarrow> js ''undefined'')"

text \<open>
  The body of the loop up to the \<open>push\<close>: the parent identifier, the identifier and
  the new value of \<open>currentSubAreaId\<close>. The warning the fallback branch logs is not
  modelled.
\<close>

definition classify_bc :: "Host \<Rightarrow> jsstring \<Rightarrow> jsstring \<Rightarrow> jsstring \<Rightarrow> jsstring \<times> jsstring \<times> jsstring" where
  "classify_bc h programName currentSubAreaId nm =
     (let prefix = englishPrefix h programName in
      if nm \<in> dom MAJOR_AREA_MAP \<or> nm \<in> set objectPrototypeKeys then
        (let areaCode = (case MAJOR_AREA_MAP nm of Some c \<Rightarrow> c | None \<Rightarrow> inheritedToString h nm);
             idNumber = prefix @ js ''-'' @ areaCode;
             parentId =
               (if nm = js ''Knowledge'' \<or> nm = js ''Skills'' \<or> nm = js ''Competence'' then []
                else if nm = js ''Theoretical Understanding'' \<or> nm = js ''Practical Application''
                  then prefix @ js ''-K''
                else if nm = js ''Generic Problem Solving'' \<or> nm = js ''Communication Skills''
                  then prefix @ js ''-S''
                else if nm = js ''Autonomy & Responsibility'' then prefix @ js ''-C''
                else [])
         in (parentId, idNumber, idNumber))
      else if matchesInitialDigits (js ''Kk'') nm then
        (let areaCode = areaCodeOf (js ''Theoretical Understanding'')
         in (prefix @ js ''-'' @ areaCode,
             prefix @ js ''-'' @ areaCode @ js ''-'' @ toUpperCase h nm, currentSubAreaId))
      else if matchesInitialDigits (js ''Ss'') nm then
        (let areaCode = areaCodeOf (js ''Generic Problem Solving'')
         in (prefix @ js ''-'' @ areaCode,
             prefix @ js ''-'' @ areaCode @ js ''-'' @ toUpperCase h nm, currentSubAreaId))
      else if matchesInitialDigits (js ''Cc'') nm then
        (let areaCode = areaCodeOf (js ''Autonomy & Responsibility'')
         in (prefix @ js ''-'' @ areaCode,
             prefix @ js ''-'' @ areaCode @ js ''-'' @ toUpperCase h nm, currentSubAreaId))
      else (currentSubAreaId, prefix @ js ''-'' @ nm, currentSubAreaId))"

fun processRows_bc :: "Host \<Rightarrow> jsstring \<Rightarrow> jsstring \<Rightarrow> InputRecord list \<Rightarrow> OutputRow list" where
  "processRows_bc h programName currentSubAreaId [] = []"
| "processRows_bc h programName currentSubAreaId (row # rest) =
     (case classify_bc h programName currentSubAreaId (name row) of
        (parentId, idNumber, currentSubAreaId') \<Rightarrow>
          STANDARD_VALUES_bc
            (newRow (Str parentId) (Str idNumber) (Str (name row)) (Str (description row)) (Str [])
               Undefined)
          # processRows_bc h programName currentSubAreaId' rest)"

definition frameworkRow_bc :: "InputRecord \<Rightarrow> jsstring \<Rightarrow> OutputRow" where
  "frameworkRow_bc mainFramework fileId =
     STANDARD_VALUES_bc
       (newRow (Str []) (Str fileId) (Str (name mainFramework)) (Str (description mainFramework))
          (Num 1) Undefined)"

text \<open>
  The test \<open>i === 0\<close> inside the loop never holds, since the loop starts at 1: every
  record after the first is pushed, whatever its name.
\<close>

definition cleanAndReformatCompetencies_bc ::
    "Host \<Rightarrow> InputRecord list \<Rightarrow> jsstring \<Rightarrow> jsstring \<Rightarrow> js_error + OutputRow list" where
  "cleanAndReformatCompetencies_bc h data programName fileId =
     (case data of
        [] \<Rightarrow> Inl TypeError
      | mainFramework # rest \<Rightarrow>
          Inr (frameworkRow_bc mainFramework fileId # processRows_bc h programName [] rest))"

section \<open>The CSV serializer (the same in both variants)\<close>

definition TARGET_COLUMNS :: "jsstring list" where
  "TARGET_COLUMNS =
     [js ''Parent ID number'', js ''ID number'', js ''Short name'', js ''Description'',
      js ''Description format'', js ''Scale values'', js ''Scale configuration'',
      js ''Rule type (optional)'', js ''Rule outcome (optional)'', js ''Rule config (optional)'',
      js ''Cross-referenced competency ID numbers'', js ''Exported ID (optional)'',
      js ''Is framework'', js ''Taxonomy'']"

text \<open>\<open>row[col]\<close> for a column of the target schema.\<close>

definition rowGet :: "OutputRow \<Rightarrow> jsstring \<Rightarrow> jsval" where
  "rowGet r col =
     (if col = js ''Parent ID number'' then Parent_ID_number r
      else if col = js ''ID number'' then ID_number r
      else if col = js ''Short name'' then Short_name r
      else if col = js ''Description'' then Description r
      else if col = js ''Description format'' then Description_format r
      else if col = js ''Scale values'' then Scale_values r
      else if col = js ''Scale configuration'' then Scale_configuration r
      else if col = js ''Exported ID (optional)'' then Exported_ID r
      else if col = js ''Is framework'' then Is_framework r
      else if col = js ''Taxonomy'' then Taxonomy r
      else Undefined)"

text \<open>\<open>String(v)\<close>; a number is written in decimal.\<close>

fun decimal :: "nat \<Rightarrow> jsstring" where
  "decimal n = (if n < 10 then [48 + n] else decimal (n div 10) @ [48 + n mod 10])"

declare decimal.simps [simp del]

fun String_js :: "jsval \<Rightarrow> jsstring" where
  "String_js Undefined = js ''undefined''"
| "String_js (Str s) = s"
| "String_js (Num n) = decimal n"

text \<open>\<open>s.includes(t)\<close>: \<open>t\<close> occurs in \<open>s\<close> as a substring.\<close>

fun includesStr :: "jsstring \<Rightarrow> jsstring \<Rightarrow> bool" where
  "includesStr [] t = (t = [])"
| "includesStr (c # cs) t = (startsWith (c # cs) t \<or> includesStr cs t)"

text \<open>\<open>xs.join(sep)\<close> on an array of strings.\<close>

fun join :: "jsstring \<Rightarrow> jsstring list \<Rightarrow> jsstring" where
  "join sep [] = []"
| "join sep [x] = x"
| "join sep (x # y # ys) = x @ sep @ join sep (y # ys)"

definition csvValue :: "OutputRow \<Rightarrow> jsstring \<Rightarrow> jsstring" where
  \<open>csvValue row col =
     (let v = (if rowGet row col \<noteq> Undefined then String_js (rowGet row col) else [])
      in if includesStr v (js '','') \<or> includesStr v (js ''"'') \<or> includesStr v [10] \<or> includesStr v (js '' '')
            \<or> includesStr v (js ''['')
         then js ''"'' @ replaceAll (js ''"'') (js ''""'') v @ js ''"''
         else v)\<close>

definition toCsvString :: "OutputRow list \<Rightarrow> jsstring" where
  "toCsvString data =
     (if length data = 0 then []
      else foldl (\<lambda>csv row. csv @ join (js '','') (map (csvValue row) TARGET_COLUMNS) @ [10])
             (join (js '','') TARGET_COLUMNS @ [10]) data)"

section \<open>Both variants with the reads that can throw written out\<close>














section \<open>Auxiliary notions for the proofs\<close>

text \<open>The \<open>structureMap\<close> of the first variant after the loop has scanned some records.\<close>

fun structureMapAfter :: "jsstring \<Rightarrow> (jsstring \<rightharpoonup> Area) \<Rightarrow> InputRecord list \<Rightarrow> (jsstring \<rightharpoonup> Area)" where
  "structureMapAfter prefix structureMap [] = structureMap"
| "structureMapAfter prefix structureMap (row # rest) =
     (if name row = [] then structureMapAfter prefix structureMap rest
      else structureMapAfter prefix (snd (snd (classify prefix structureMap (name row)))) rest)"

text \<open>
  The table in closed form: the three seeded areas, and an entry for each sub-area whose
  name is among the names seen so far.
\<close>

definition seenMap :: "jsstring \<Rightarrow> jsstring set \<Rightarrow> (jsstring \<rightharpoonup> Area)" where
  "seenMap prefix seen n =
     (case initialStructureMap prefix n of
        Some a \<Rightarrow> Some a
      | None \<Rightarrow>
          (case subCategoryParents n of
             Some parentName \<Rightarrow>
               if n \<in> seen
               then map_option
                      (\<lambda>pa. \<lparr>area_id = area_id pa @ js ''-'' @ generateCode n, area_parent = area_id pa\<rparr>)
                      (initialStructureMap prefix parentName)
               else None
           | None \<Rightarrow> None))"

text \<open>
  The parent the first variant gives a name that is neither an area nor a sub-area: the
  identifier of the default sub-area of its initial letter, if a row of that sub-area has
  been scanned.
\<close>

definition defaultParentId :: "jsstring \<Rightarrow> jsstring set \<Rightarrow> jsstring \<Rightarrow> jsstring option" where
  "defaultParentId p seen nm =
     (if (startsWith nm (js ''K'') \<or> startsWith nm (js ''k'')) then
         (if js ''Theoretical Understanding'' \<in> seen then Some (p @ js ''-K-TU'') else None)
      else if (startsWith nm (js ''S'') \<or> startsWith nm (js ''s'')) then
         (if js ''Generic Problem Solving'' \<in> seen then Some (p @ js ''-S-GPS'') else None)
      else if (startsWith nm (js ''C'') \<or> startsWith nm (js ''c'')) then
         (if js ''Autonomy & Responsibility'' \<in> seen then Some (p @ js ''-C-AR'') else None)
      else None)"

text \<open>The \<open>prefix\<close> of the first variant.\<close>

definition programPrefix :: "InputRecord \<Rightarrow> jsstring \<Rightarrow> jsstring" where
  "programPrefix mainFramework programName =
     generateCode (if name mainFramework \<noteq> [] then name mainFramework else programName)"

text \<open>\<open>currentSubAreaId\<close> of the second variant after the loop has scanned some records.\<close>

fun currentSubAreaIdAfter :: "Host \<Rightarrow> jsstring \<Rightarrow> jsstring \<Rightarrow> InputRecord list \<Rightarrow> jsstring" where
  "currentSubAreaIdAfter h programName cur [] = cur"
| "currentSubAreaIdAfter h programName cur (row # rest) =
     currentSubAreaIdAfter h programName (snd (snd (classify_bc h programName cur (name row)))) rest"

text \<open>
  The three rules for leaf outcomes: the letters a name may start with, the default
  sub-area of those letters, and what follows the prefix in the identifier of that sub-area
  in the first and in the second variant.
\<close>

definition leafRules :: "(jsstring \<times> jsstring \<times> jsstring \<times> jsstring) list" where
  "leafRules =
     [(js ''Kk'', js ''Theoretical Understanding'', js ''-K-TU'', js ''-K-TU''),
      (js ''Ss'', js ''Generic Problem Solving'', js ''-S-GPS'', js ''-S-GPS''),
      (js ''Cc'', js ''Autonomy & Responsibility'', js ''-C-AR'', js ''-C-ARC'')]"

text \<open>
  Every row of a list, unless exempt, has a parent identifier that is in a given set or is
  the identifier of a row before it.
\<close>

fun parentsKnown :: "(OutputRow \<Rightarrow> bool) \<Rightarrow> jsval set \<Rightarrow> OutputRow list \<Rightarrow> bool" where
  "parentsKnown exempt known [] = True"
| "parentsKnown exempt known (r # rs) =
     ((exempt r \<or> Parent_ID_number r \<in> known) \<and> parentsKnown exempt (insert (ID_number r) known) rs)"

text \<open>
  The serialization rule in the words of the specification: a value needs quotes when it
  contains a comma, a double quote, a newline, a space or an opening square bracket; a
  quoted value stands between double quotes with every double quote of its own doubled.
  The value of a field that was never assigned is the empty string.
\<close>

definition specNeedsQuotes :: "jsstring \<Rightarrow> bool" where
  \<open>specNeedsQuotes v \<longleftrightarrow>
     of_char CHR '','' \<in> set v \<or> of_char CHR ''"'' \<in> set v \<or> 10 \<in> set v \<or> of_char CHR '' '' \<in> set v
     \<or> of_char CHR ''['' \<in> set v\<close>

definition specQuoted :: "jsstring \<Rightarrow> jsstring" where
  \<open>specQuoted v =
     js ''"'' @ concat (map (\<lambda>c. if c = of_char CHR ''"'' then js ''""'' else [c]) v) @ js ''"''\<close>

definition fieldText :: "OutputRow \<Rightarrow> jsstring \<Rightarrow> jsstring" where
  "fieldText row col = (case rowGet row col of Undefined \<Rightarrow> [] | Str s \<Rightarrow> s | Num n \<Rightarrow> decimal n)"

section \<open>Concrete inputs\<close>

text \<open>
  A host for the concrete runs of the second variant; it is consulted only for names
  outside ASCII and for names of properties of \<open>Object.prototype\<close>.
\<close>

definition exampleHost :: Host where
  "exampleHost =
     \<lparr>unicodeUpper = (\<lambda>s. s),
      inheritedToString = (\<lambda>k. js ''function '' @ k @ js ''() { [native code] }'')\<rparr>"

text \<open>The scenario of the specification.\<close>

definition exampleRecords :: "InputRecord list" where
  "exampleRecords =
     [\<lparr>name = js ''Physical Education'', description = js ''Program desc''\<rparr>,
      \<lparr>name = js ''Knowledge'', description = []\<rparr>,
      \<lparr>name = js ''Theoretical Understanding'', description = []\<rparr>,
      \<lparr>name = js ''K1'', description = js ''Outcome 1''\<rparr>]"

section \<open>Evaluation rules and the area table of the first variant\<close>

lemmas js_eval = js_def trim_def isWhiteSpace_def isDigit_def isUpperAZ_def isLowerAZ_def
  isLetter_def isAlnum_def asciiUpper_def matchesLettersDigits_def acronym_def generateCode_def
  splitWhiteSpace.simps startsWith_def

lemmas row_eval = newRow_def STANDARD_VALUES_def ROW_STANDARD_VALUES_def STANDARD_VALUES_bc_def
  frameworkRow_def frameworkRow_bc_def

lemmas tableA_eval = classify_def initialStructureMap_def subCategoryParents_def
  objectPrototypeKeys_def defaultParentName_def cleanAndReformatCompetencies_def Let_def

lemmas bc_eval = classify_bc_def englishPrefix_def PROGRAM_PREFIX_MAP_def MAJOR_AREA_MAP_def
  objectPrototypeKeys_def createFrameworkPrefix_def toUpperCase_def matchesInitialDigits_def
  areaCodeOf_def cleanAndReformatCompetencies_bc_def Let_def

lemma js_eq_iff [simp]: "js a = js b \<longleftrightarrow> a = b"
  by (simp add: js_def inj_map_eq_map [OF inj_of_char])

lemma js_append: "js (a @ b) = js a @ js b"
  by (simp add: js_def)

lemma js_Nil [simp]: "js [] = []"
  by (simp add: js_def)

lemma js_eq_Nil [simp]: "js a = [] \<longleftrightarrow> a = []" "[] = js a \<longleftrightarrow> a = []"
  by (auto simp add: js_def)

lemma processRows_append:
  "processRows p sm (xs @ ys) = processRows p sm xs @ processRows p (structureMapAfter p sm xs) ys"
  by (induction xs arbitrary: sm) (auto split: prod.splits)

lemma subCategoryParents_cases:
  "subCategoryParents n = Some pn \<Longrightarrow>
   pn \<in> {js ''Knowledge'', js ''Skills'', js ''Competence''} \<and> initialStructureMap p n = None
   \<and> n \<notin> set objectPrototypeKeys"
  by (auto simp: subCategoryParents_def initialStructureMap_def objectPrototypeKeys_def split: if_splits)

lemma initialStructureMap_major:
  "pn \<in> {js ''Knowledge'', js ''Skills'', js ''Competence''} \<Longrightarrow>
   \<exists>c. c \<in> {js ''-K'', js ''-S'', js ''-C''} \<and> initialStructureMap p pn = Some \<lparr>area_id = p @ c, area_parent = []\<rparr>"
  by (auto simp: initialStructureMap_def)

lemma seenMap_empty: "seenMap p {} = initialStructureMap p"
  by (rule ext) (simp add: seenMap_def split: option.splits)

lemma seenMap_insert_other:
  "subCategoryParents nm = None \<or> initialStructureMap p nm \<noteq> None \<or> nm \<in> seen \<Longrightarrow> seenMap p (insert nm seen) = seenMap p seen"
  by (rule ext) (auto simp add: seenMap_def split: option.splits)

lemma seenMap_insert_sub:
  "subCategoryParents nm = Some pn \<Longrightarrow> initialStructureMap p pn = Some pa \<Longrightarrow>
   seenMap p (insert nm seen) = (seenMap p seen)(nm \<mapsto> \<lparr>area_id = area_id pa @ js ''-'' @ generateCode nm, area_parent = area_id pa\<rparr>)"
  apply (rule ext)
  apply (frule subCategoryParents_cases [where p = p])
  apply (auto simp add: seenMap_def split: option.splits)
  done

lemma proto_not_area:
  "nm \<in> set objectPrototypeKeys \<Longrightarrow> initialStructureMap p nm = None \<and> subCategoryParents nm = None"
  by (auto simp: subCategoryParents_def initialStructureMap_def objectPrototypeKeys_def)

lemma seenMap_major:
  "initialStructureMap p nm = Some a \<Longrightarrow> seenMap p seen nm = Some a"
  by (simp add: seenMap_def)

lemma seenMap_sub:
  "subCategoryParents nm = Some pn \<Longrightarrow> initialStructureMap p pn = Some pa \<Longrightarrow>
   seenMap p seen nm =
     (if nm \<in> seen then Some \<lparr>area_id = area_id pa @ js ''-'' @ generateCode nm, area_parent = area_id pa\<rparr>
      else None)"
  using subCategoryParents_cases [of nm pn p] by (simp add: seenMap_def)

lemma seenMap_other:
  "initialStructureMap p nm = None \<Longrightarrow> subCategoryParents nm = None \<Longrightarrow> seenMap p seen nm = None"
  by (simp add: seenMap_def)

lemma classify_major:
  "initialStructureMap p nm = Some a \<Longrightarrow>
   classify p (seenMap p seen) nm = (Str [], Str (area_id a), seenMap p seen)"
  by (auto simp: classify_def seenMap_major initialStructureMap_def split: if_splits)

lemma classify_proto:
  "nm \<in> set objectPrototypeKeys \<Longrightarrow>
   classify p (seenMap p seen) nm = (Undefined, Undefined, seenMap p seen)"
  using proto_not_area [of nm p] by (simp add: classify_def seenMap_other)

lemma classify_sub:
  assumes "subCategoryParents nm = Some pn" and "initialStructureMap p pn = Some pa"
  shows "classify p (seenMap p seen) nm =
     (Str (area_id pa), Str (area_id pa @ js ''-'' @ generateCode nm), seenMap p (insert nm seen))"
proof -
  note c = subCategoryParents_cases [OF assms(1), of p]
  show ?thesis
  proof (cases "nm \<in> seen")
    case True
    then have "insert nm seen = seen" by auto
    with True assms show ?thesis
      by (simp add: classify_def seenMap_sub)
  next
    case False
    with assms c show ?thesis
      by (simp add: classify_def seenMap_sub seenMap_major seenMap_insert_sub Let_def)
  qed
qed

lemma generateCode_subareas:
  "generateCode (js ''Theoretical Understanding'') = js ''TU''"
  "generateCode (js ''Generic Problem Solving'') = js ''GPS''"
  "generateCode (js ''Autonomy & Responsibility'') = js ''AR''"
  by (simp_all add: js_eval)

lemma seenMap_defaults:
  "seenMap p seen (js ''Theoretical Understanding'') =
     (if js ''Theoretical Understanding'' \<in> seen
      then Some \<lparr>area_id = p @ js ''-K-TU'', area_parent = p @ js ''-K''\<rparr> else None)"
  "seenMap p seen (js ''Generic Problem Solving'') =
     (if js ''Generic Problem Solving'' \<in> seen
      then Some \<lparr>area_id = p @ js ''-S-GPS'', area_parent = p @ js ''-S''\<rparr> else None)"
  "seenMap p seen (js ''Autonomy & Responsibility'') =
     (if js ''Autonomy & Responsibility'' \<in> seen
      then Some \<lparr>area_id = p @ js ''-C-AR'', area_parent = p @ js ''-C''\<rparr> else None)"
  by (simp_all add: seenMap_def initialStructureMap_def subCategoryParents_def generateCode_subareas
        js_append [symmetric])

lemma classify_other:
  assumes "initialStructureMap p nm = None" and "subCategoryParents nm = None"
    and "nm \<notin> set objectPrototypeKeys"
  shows "classify p (seenMap p seen) nm =
     (case defaultParentId p seen nm of
        Some parentId \<Rightarrow> (Str parentId, Str (parentId @ js ''-'' @ generateCode nm), seenMap p seen)
      | None \<Rightarrow> (Str [], Str (p @ js ''-'' @ generateCode nm), seenMap p seen))"
  using assms
  by (simp add: classify_def seenMap_other defaultParentName_def defaultParentId_def seenMap_defaults Let_def)

lemma classify_seenMap_state:
  "snd (snd (classify p (seenMap p seen) nm)) = seenMap p (insert nm seen)"
proof (cases "initialStructureMap p nm")
  case (Some a)
  then show ?thesis by (simp add: classify_major seenMap_insert_other)
next
  case None
  note n = this
  show ?thesis
  proof (cases "subCategoryParents nm")
    case (Some pn)
    from subCategoryParents_cases [OF Some, of p] initialStructureMap_major [of pn p]
    obtain pa where "initialStructureMap p pn = Some pa" by blast
    with Some show ?thesis by (simp add: classify_sub)
  next
    case None
    show ?thesis
    proof (cases "nm \<in> set objectPrototypeKeys")
      case True
      then show ?thesis using None by (simp add: classify_proto seenMap_insert_other)
    next
      case False
      then show ?thesis using None n
        by (simp add: classify_other seenMap_insert_other split: option.splits)
    qed
  qed
qed

lemma seenMap_insert_empty: "seenMap p (insert [] seen) = seenMap p seen"
  by (rule seenMap_insert_other) (simp add: subCategoryParents_def)

lemma structureMapAfter_seenMap:
  "structureMapAfter p (seenMap p seen) rs = seenMap p (seen \<union> name ` set rs)"
proof (induction rs arbitrary: seen)
  case Nil
  then show ?case by simp
next
  case (Cons r rs)
  show ?case
  proof (cases "name r = []")
    case True
    have "structureMapAfter p (seenMap p seen) (r # rs) = seenMap p (seen \<union> name ` set rs)"
      using True Cons.IH [of seen] by simp
    also have "\<dots> = seenMap p (insert [] (seen \<union> name ` set rs))"
      by (simp only: seenMap_insert_empty)
    also have "insert [] (seen \<union> name ` set rs) = seen \<union> name ` set (r # rs)"
      using True by simp
    finally show ?thesis .
  next
    case False
    have "structureMapAfter p (seenMap p seen) (r # rs) = seenMap p (insert (name r) seen \<union> name ` set rs)"
      using False Cons.IH [of "insert (name r) seen"] by (simp add: classify_seenMap_state)
    also have "insert (name r) seen \<union> name ` set rs = seen \<union> name ` set (r # rs)"
      by simp
    finally show ?thesis .
  qed
qed

section \<open>Rows emitted by the loops\<close>

lemma processRows_names:
  "map (\<lambda>r. (Short_name r, Description r)) (processRows prefix sm rs) =
   map (\<lambda>r. (Str (name r), Str (description r))) (filter (\<lambda>r. name r \<noteq> []) rs)"
  by (induction rs arbitrary: sm) (auto simp: ROW_STANDARD_VALUES_def newRow_def split: prod.splits)

lemma processRows_fixed:
  "r \<in> set (processRows prefix sm rs) \<Longrightarrow>
   Is_framework r = Str [] \<and> Description_format r = Num 1 \<and> Scale_values r = Str [] \<and>
   Scale_configuration r = Str [] \<and>
   Taxonomy r = Str (js ''competency,competency,competency,competency,competency'')"
  by (induction rs arbitrary: sm)
     (auto simp: ROW_STANDARD_VALUES_def newRow_def split: prod.splits if_splits)

lemma processRows_bc_names:
  "map (\<lambda>r. (Short_name r, Description r)) (processRows_bc h pn cur rs) =
   map (\<lambda>r. (Str (name r), Str (description r))) rs"
  by (induction rs arbitrary: cur) (auto simp: STANDARD_VALUES_bc_def newRow_def split: prod.splits)

lemma processRows_bc_fixed:
  \<open>r \<in> set (processRows_bc h pn cur rs) \<Longrightarrow>
   Is_framework r = Str [] \<and> Description_format r = Num 1 \<and>
   Scale_values r = Str (js ''Not yet competent,Competent'') \<and>
   Scale_configuration r =
     Str (js ''[{""scaleid"":""2""},{""id"":2,""scaledefault"":1,""proficient"":1}]'') \<and>
   Taxonomy r = Str (js ''competency'')\<close>
  by (induction rs arbitrary: cur)
     (auto simp: STANDARD_VALUES_bc_def newRow_def split: prod.splits if_splits)

lemma processRows_length:
  "length (processRows prefix sm rs) = length (filter (\<lambda>r. name r \<noteq> []) rs)"
  using arg_cong [OF processRows_names, of length] by simp

lemma processRows_bc_length: "length (processRows_bc h pn cur rs) = length rs"
  using arg_cong [OF processRows_bc_names, of length] by simp

section \<open>The row of a given record\<close>

lemma reformat_Cons:
  "cleanAndReformatCompetencies (d0 # rest) pn fid =
   Inr (frameworkRow d0 fid # processRows (programPrefix d0 pn) (seenMap (programPrefix d0 pn) {}) rest)"
  by (simp add: cleanAndReformatCompetencies_def programPrefix_def seenMap_empty Let_def)

lemma reformat_bc_Cons:
  "cleanAndReformatCompetencies_bc h (d0 # rest) pn fid =
   Inr (frameworkRow_bc d0 fid # processRows_bc h pn [] rest)"
  by (simp add: cleanAndReformatCompetencies_bc_def)

lemma processRows_bc_append:
  "processRows_bc h pn cur (xs @ ys) =
   processRows_bc h pn cur xs @ processRows_bc h pn (currentSubAreaIdAfter h pn cur xs) ys"
  by (induction xs arbitrary: cur) (auto split: prod.splits)

lemma processRows_nth:
  "name r \<noteq> [] \<Longrightarrow>
   processRows p (seenMap p seen) (pre @ r # post) ! length (filter (\<lambda>x. name x \<noteq> []) pre) =
   (case classify p (seenMap p (seen \<union> name ` set pre)) (name r) of
      (parentId, idNumber, sm') \<Rightarrow>
        ROW_STANDARD_VALUES (newRow parentId idNumber (Str (name r)) (Str (description r)) (Str []) Undefined))"
  by (simp add: processRows_append structureMapAfter_seenMap nth_append processRows_length
       split: prod.splits)

lemma processRows_bc_nth:
  "processRows_bc h pn cur (pre @ r # post) ! length pre =
   (case classify_bc h pn (currentSubAreaIdAfter h pn cur pre) (name r) of
      (parentId, idNumber, cur') \<Rightarrow>
        STANDARD_VALUES_bc (newRow (Str parentId) (Str idNumber) (Str (name r)) (Str (description r)) (Str []) Undefined))"
  by (simp add: processRows_bc_append nth_append processRows_bc_length split: prod.splits)

lemma matchesInitialDigits_chars:
  "matchesInitialDigits initials nm \<Longrightarrow>
   \<exists>c ds. nm = c # ds \<and> c \<in> set initials \<and> ds \<noteq> [] \<and> list_all isDigit ds"
  by (auto simp: matchesInitialDigits_def split: list.splits)

lemma dropWhile_hd: "s \<noteq> [] \<Longrightarrow> \<not> P (hd s) \<Longrightarrow> dropWhile P s = s"
  by (cases s) auto

lemma trim_id:
  assumes "s \<noteq> []" and "\<not> isWhiteSpace (hd s)" and "\<not> isWhiteSpace (last s)"
  shows "trim s = s"
proof -
  have "dropWhile isWhiteSpace s = s" using assms by (simp add: dropWhile_hd)
  moreover have "dropWhile isWhiteSpace (rev s) = rev s"
    using assms by (simp add: dropWhile_hd hd_rev)
  ultimately show ?thesis by (simp add: trim_def)
qed

lemma digit_not_space: "isDigit c \<Longrightarrow> \<not> isWhiteSpace c"
  by (auto simp: isDigit_def isWhiteSpace_def)

lemma letter_not_space: "isLetter c \<Longrightarrow> \<not> isWhiteSpace c"
  by (auto simp: isLetter_def isUpperAZ_def isLowerAZ_def isWhiteSpace_def)

lemma digit_not_letter: "isDigit c \<Longrightarrow> \<not> isLetter c"
  by (auto simp: isLetter_def isUpperAZ_def isLowerAZ_def isDigit_def)

lemma generateCode_leaf:
  assumes "matchesInitialDigits initials nm" and "list_all isLetter initials"
  shows "generateCode nm = nm"
proof -
  from matchesInitialDigits_chars [OF assms(1)] obtain c ds where
    nm: "nm = c # ds" and c: "c \<in> set initials" and ds: "ds \<noteq> []" "list_all isDigit ds" by blast
  from c assms(2) have l: "isLetter c" by (auto simp: list_all_iff)
  from ds have "isDigit (last ds)" by (auto simp: list_all_iff)
  then have t: "trim nm = nm"
    using l ds(1) by (intro trim_id) (simp_all add: nm letter_not_space digit_not_space)
  from ds obtain d ds' where d: "ds = d # ds'" "isDigit d" by (cases ds) auto
  have "matchesLettersDigits nm"
    using l d ds digit_not_letter [OF d(2)] by (simp add: matchesLettersDigits_def nm)
  then show ?thesis using t by (simp add: generateCode_def nm)
qed

lemma leaf_not_area:
  assumes "matchesInitialDigits initials nm"
  shows "initialStructureMap p nm = None \<and> subCategoryParents nm = None \<and> nm \<notin> set objectPrototypeKeys
    \<and> nm \<notin> dom MAJOR_AREA_MAP"
proof -
  from matchesInitialDigits_chars [OF assms] obtain c ds d ds' where
    nm: "nm = c # d # ds'" and d: "isDigit d" by (cases nm; cases "tl nm") auto
  show ?thesis
    using d unfolding nm
    by (auto simp: initialStructureMap_def subCategoryParents_def objectPrototypeKeys_def
        MAJOR_AREA_MAP_def js_def isDigit_def dom_def)
qed


section \<open>The framework row\<close>

text \<open>
  C8. For every non-empty record sequence the first row of the output is the framework
  row: \<open>Is framework\<close> is 1, \<open>ID number\<close> is the root identifier the caller
  gave, \<open>Parent ID number\<close> is empty; every other row has \<open>Is framework\<close>
  equal to the empty string. This holds in both variants.
\<close>

theorem framework_row_first:
  assumes "data \<noteq> []"
  shows "(\<exists>r0 rows. cleanAndReformatCompetencies data programName fileId = Inr (r0 # rows) \<and>
            Is_framework r0 = Num 1 \<and> ID_number r0 = Str fileId \<and> Parent_ID_number r0 = Str [] \<and>
            (\<forall>r\<in>set rows. Is_framework r = Str [])) \<and>
         (\<exists>r0 rows. cleanAndReformatCompetencies_bc h data programName fileId = Inr (r0 # rows) \<and>
            Is_framework r0 = Num 1 \<and> ID_number r0 = Str fileId \<and> Parent_ID_number r0 = Str [] \<and>
            (\<forall>r\<in>set rows. Is_framework r = Str []))"
proof (cases data)
  case Nil
  with assms show ?thesis by simp
next
  case (Cons d0 rest)
  show ?thesis
    unfolding Cons cleanAndReformatCompetencies_def cleanAndReformatCompetencies_bc_def
    by (auto simp: Let_def row_eval dest: processRows_fixed processRows_bc_fixed)
qed

theorem framework_row_first_witness:
  "exampleRecords \<noteq> [] \<and>
   (\<exists>r0 rows. cleanAndReformatCompetencies exampleRecords (js ''Physical Education'') (js ''100'')
        = Inr (r0 # rows) \<and>
      Is_framework r0 = Num 1 \<and> ID_number r0 = Str (js ''100'') \<and> Parent_ID_number r0 = Str [] \<and>
      (\<forall>r\<in>set rows. Is_framework r = Str [])) \<and>
   (\<exists>r0 rows. cleanAndReformatCompetencies_bc exampleHost exampleRecords (js ''Physical Education'')
        (js ''100'') = Inr (r0 # rows) \<and>
      Is_framework r0 = Num 1 \<and> ID_number r0 = Str (js ''100'') \<and> Parent_ID_number r0 = Str [] \<and>
      (\<forall>r\<in>set rows. Is_framework r = Str []))"
proof -
  have h: "exampleRecords \<noteq> []" by (simp add: exampleRecords_def)
  show ?thesis by (rule conjI [OF h framework_row_first [OF h]])
qed

section \<open>The number of rows\<close>

text \<open>
  C4, as stated, fails on the second variant, whose loop has no test of the name: a
  record with an empty name (and a description, or the reader would have dropped it)
  goes through the fallback branch and is pushed.
\<close>

theorem row_count_counterexample:
  "cleanAndReformatCompetencies_bc exampleHost
     [\<lparr>name = js ''Accounting'', description = js ''Program''\<rparr>,
      \<lparr>name = [], description = js ''Stray text''\<rparr>] (js ''Accounting'') (js ''2299'') =
   Inr [frameworkRow_bc \<lparr>name = js ''Accounting'', description = js ''Program''\<rparr> (js ''2299''),
        STANDARD_VALUES_bc
          (newRow (Str []) (Str (js ''ACC-'')) (Str []) (Str (js ''Stray text'')) (Str []) Undefined)]"
  by (simp add: bc_eval js_eval)

text \<open>
  C4, amended. For every non-empty record sequence the first variant returns the framework
  row and one row for each later record with a non-empty name, so 1 plus the number of
  those records; the second variant returns the framework row and one row for each later
  record, so as many rows as there are records.
\<close>

theorem row_count:
  assumes "data \<noteq> []"
  shows "(\<exists>rows. cleanAndReformatCompetencies data programName fileId = Inr rows \<and>
            length rows = 1 + length (filter (\<lambda>r. name r \<noteq> []) (tl data))) \<and>
         (\<exists>rows. cleanAndReformatCompetencies_bc h data programName fileId = Inr rows \<and>
            length rows = length data)"
proof (cases data)
  case Nil
  with assms show ?thesis by simp
next
  case (Cons d0 rest)
  show ?thesis
    unfolding Cons cleanAndReformatCompetencies_def cleanAndReformatCompetencies_bc_def
    by (simp add: Let_def processRows_length processRows_bc_length)
qed

theorem row_count_witness:
  "exampleRecords \<noteq> [] \<and>
   (\<exists>rows. cleanAndReformatCompetencies exampleRecords (js ''Physical Education'') (js ''100'')
        = Inr rows \<and>
      length rows = 1 + length (filter (\<lambda>r. name r \<noteq> []) (tl exampleRecords))) \<and>
   (\<exists>rows. cleanAndReformatCompetencies_bc exampleHost exampleRecords (js ''Physical Education'')
        (js ''100'') = Inr rows \<and>
      length rows = length exampleRecords)"
proof -
  have h: "exampleRecords \<noteq> []" by (simp add: exampleRecords_def)
  show ?thesis by (rule conjI [OF h row_count [OF h]])
qed

section \<open>The contents of a row\<close>

text \<open>
  C3, as stated, fails on the second variant, which has one table of standard values and
  spreads it into every row: a row that is not the framework row carries the scale of the
  framework row and the taxonomy \<open>competency\<close>.
\<close>

theorem row_contents_counterexample:
  "cleanAndReformatCompetencies_bc exampleHost
     [\<lparr>name = js ''Accounting'', description = js ''Program''\<rparr>,
      \<lparr>name = js ''Knowledge'', description = js ''What is known''\<rparr>] (js ''Accounting'') (js ''2299'') =
   Inr [frameworkRow_bc \<lparr>name = js ''Accounting'', description = js ''Program''\<rparr> (js ''2299''),
        STANDARD_VALUES_bc
          (newRow (Str []) (Str (js ''ACC-K'')) (Str (js ''Knowledge'')) (Str (js ''What is known''))
             (Str []) Undefined)] \<and>
   Scale_values (STANDARD_VALUES_bc
          (newRow (Str []) (Str (js ''ACC-K'')) (Str (js ''Knowledge'')) (Str (js ''What is known''))
             (Str []) Undefined)) = Str (js ''Not yet competent,Competent'') \<and>
   Taxonomy (STANDARD_VALUES_bc
          (newRow (Str []) (Str (js ''ACC-K'')) (Str (js ''Knowledge'')) (Str (js ''What is known''))
             (Str []) Undefined)) = Str (js ''competency'')"
  by (simp add: bc_eval js_eval row_eval)

text \<open>
  C3, amended. In both variants the rows after the framework row carry the name and the
  description of their record verbatim as \<open>Short name\<close> and \<open>Description\<close>, and
  have \<open>Is framework\<close> empty and \<open>Description format\<close> 1. In the first variant
  \<open>Scale values\<close> and \<open>Scale configuration\<close> are empty and \<open>Taxonomy\<close> is
  \<open>competency\<close> five times; in the second variant they are the values of the framework
  row of that variant, with \<open>Taxonomy\<close> equal to \<open>competency\<close>.
\<close>

theorem row_contents:
  assumes "data \<noteq> []"
  shows \<open>(\<exists>r0 rows. cleanAndReformatCompetencies data programName fileId = Inr (r0 # rows) \<and>
            map (\<lambda>r. (Short_name r, Description r)) rows =
              map (\<lambda>r. (Str (name r), Str (description r))) (filter (\<lambda>r. name r \<noteq> []) (tl data)) \<and>
            (\<forall>r\<in>set rows. Is_framework r = Str [] \<and> Description_format r = Num 1 \<and>
               Scale_values r = Str [] \<and> Scale_configuration r = Str [] \<and>
               Taxonomy r = Str (js ''competency,competency,competency,competency,competency''))) \<and>
         (\<exists>r0 rows. cleanAndReformatCompetencies_bc h data programName fileId = Inr (r0 # rows) \<and>
            map (\<lambda>r. (Short_name r, Description r)) rows =
              map (\<lambda>r. (Str (name r), Str (description r))) (tl data) \<and>
            (\<forall>r\<in>set rows. Is_framework r = Str [] \<and> Description_format r = Num 1 \<and>
               Scale_values r = Str (js ''Not yet competent,Competent'') \<and>
               Scale_configuration r =
                 Str (js ''[{""scaleid"":""2""},{""id"":2,""scaledefault"":1,""proficient"":1}]'') \<and>
               Taxonomy r = Str (js ''competency'')))\<close>
proof (cases data)
  case Nil
  with assms show ?thesis by simp
next
  case (Cons d0 rest)
  show ?thesis
    unfolding Cons cleanAndReformatCompetencies_def cleanAndReformatCompetencies_bc_def
    using processRows_fixed processRows_bc_fixed
    by (simp add: Let_def processRows_names processRows_bc_names)
qed

theorem row_contents_witness:
  \<open>exampleRecords \<noteq> [] \<and>
   (\<exists>r0 rows. cleanAndReformatCompetencies exampleRecords (js ''Physical Education'') (js ''100'')
        = Inr (r0 # rows) \<and>
      map (\<lambda>r. (Short_name r, Description r)) rows =
        map (\<lambda>r. (Str (name r), Str (description r))) (filter (\<lambda>r. name r \<noteq> []) (tl exampleRecords)) \<and>
      (\<forall>r\<in>set rows. Is_framework r = Str [] \<and> Description_format r = Num 1 \<and>
         Scale_values r = Str [] \<and> Scale_configuration r = Str [] \<and>
         Taxonomy r = Str (js ''competency,competency,competency,competency,competency''))) \<and>
   (\<exists>r0 rows. cleanAndReformatCompetencies_bc exampleHost exampleRecords (js ''Physical Education'')
        (js ''100'') = Inr (r0 # rows) \<and>
      map (\<lambda>r. (Short_name r, Description r)) rows =
        map (\<lambda>r. (Str (name r), Str (description r))) (tl exampleRecords) \<and>
      (\<forall>r\<in>set rows. Is_framework r = Str [] \<and> Description_format r = Num 1 \<and>
         Scale_values r = Str (js ''Not yet competent,Competent'') \<and>
         Scale_configuration r =
           Str (js ''[{""scaleid"":""2""},{""id"":2,""scaledefault"":1,""proficient"":1}]'') \<and>
         Taxonomy r = Str (js ''competency'')))\<close>
proof -
  have h: "exampleRecords \<noteq> []" by (simp add: exampleRecords_def)
  show ?thesis by (rule conjI [OF h row_contents [OF h]])
qed

section \<open>Leaf outcomes\<close>

lemma leafRules_letters:
  "(initials, subArea, suffixA, suffixB) \<in> set leafRules \<Longrightarrow> list_all isLetter initials"
  by (auto simp: leafRules_def js_def isLetter_def isUpperAZ_def isLowerAZ_def)

lemma leaf_ascii:
  assumes "matchesInitialDigits initials nm" and "list_all isLetter initials"
  shows "list_all (\<lambda>c. c < 128) nm"
proof -
  from matchesInitialDigits_chars [OF assms(1)] obtain c ds where
    nm: "nm = c # ds" and c: "c \<in> set initials" and ds: "list_all isDigit ds" by blast
  from c assms(2) have "isLetter c" by (auto simp: list_all_iff)
  then have "c < 128" by (auto simp: isLetter_def isUpperAZ_def isLowerAZ_def)
  moreover have "list_all (\<lambda>c. c < 128) ds"
    using ds by (auto simp: list_all_iff isDigit_def)
  ultimately show ?thesis by (simp add: nm)
qed

lemma classify_bc_leaf:
  assumes r: "(initials, subArea, suffixA, suffixB) \<in> set leafRules"
    and m: "matchesInitialDigits initials nm"
  shows "classify_bc h pn cur nm =
     (englishPrefix h pn @ suffixB, englishPrefix h pn @ suffixB @ js ''-'' @ map asciiUpper nm, cur)"
proof -
  note na = leaf_not_area [OF m, of "[]"]
  have up: "toUpperCase h nm = map asciiUpper nm"
    using leaf_ascii [OF m leafRules_letters [OF r]] by (simp add: toUpperCase_def)
  from matchesInitialDigits_chars [OF m] obtain c ds where
    nm: "nm = c # ds" and c: "c \<in> set initials" and ds: "ds \<noteq> []" "list_all isDigit ds" by blast
  have code: "areaCodeOf (js ''Theoretical Understanding'') = js ''K-TU''"
    "areaCodeOf (js ''Generic Problem Solving'') = js ''S-GPS''"
    "areaCodeOf (js ''Autonomy & Responsibility'') = js ''C-ARC''"
    by (simp_all add: areaCodeOf_def MAJOR_AREA_MAP_def)
  from r consider
      (K) "initials = js ''Kk''" "suffixB = js ''-K-TU''"
    | (S) "initials = js ''Ss''" "suffixB = js ''-S-GPS''"
    | (C) "initials = js ''Cc''" "suffixB = js ''-C-ARC''"
    by (auto simp: leafRules_def)
  then show ?thesis
  proof cases
    case K
    then show ?thesis using na m up code
      by (simp add: classify_bc_def Let_def js_append [symmetric])
  next
    case S
    then have "\<not> matchesInitialDigits (js ''Kk'') nm"
      using c by (auto simp: matchesInitialDigits_def nm js_def)
    then show ?thesis using S na m up code
      by (simp add: classify_bc_def Let_def js_append [symmetric])
  next
    case C
    then have "\<not> matchesInitialDigits (js ''Kk'') nm" "\<not> matchesInitialDigits (js ''Ss'') nm"
      using c by (auto simp: matchesInitialDigits_def nm js_def)
    then show ?thesis using C na m up code
      by (simp add: classify_bc_def Let_def js_append [symmetric])
  qed
qed

lemma classify_leaf:
  assumes r: "(initials, subArea, suffixA, suffixB) \<in> set leafRules"
    and m: "matchesInitialDigits initials nm"
  shows "classify p (seenMap p seen) nm =
     (if subArea \<in> seen then (Str (p @ suffixA), Str (p @ suffixA @ js ''-'' @ nm), seenMap p seen)
      else (Str [], Str (p @ js ''-'' @ nm), seenMap p seen))"
proof -
  note na = leaf_not_area [OF m, of p]
  note g = generateCode_leaf [OF m leafRules_letters [OF r]]
  from matchesInitialDigits_chars [OF m] obtain c ds where
    nm: "nm = c # ds" and c: "c \<in> set initials" by blast
  from r consider
      (K) "initials = js ''Kk''" "subArea = js ''Theoretical Understanding''" "suffixA = js ''-K-TU''"
    | (S) "initials = js ''Ss''" "subArea = js ''Generic Problem Solving''" "suffixA = js ''-S-GPS''"
    | (C) "initials = js ''Cc''" "subArea = js ''Autonomy & Responsibility''" "suffixA = js ''-C-AR''"
    by (auto simp: leafRules_def)
  then have "defaultParentId p seen nm = (if subArea \<in> seen then Some (p @ suffixA) else None)"
    using c by cases (auto simp: defaultParentId_def startsWith_def nm js_def)
  then show ?thesis using na g by (simp add: classify_other)
qed

text \<open>
  C2, as stated, fails on the first variant, which has no pattern for leaf outcomes: a name
  that is not an area goes by its first letter to the default sub-area, and only if a row
  of that sub-area has been scanned before; its code is the one \<open>generateCode\<close>
  gives, which keeps a name of letters and digits as it is written. Below, \<open>k1\<close>
  comes before the sub-area and gets no parent, \<open>k2\<close> comes after it and keeps its
  lower-case letter.
\<close>

theorem leaf_outcome_ids_counterexample:
  "cleanAndReformatCompetencies
     [\<lparr>name = js ''Physical Education'', description = js ''Program desc''\<rparr>,
      \<lparr>name = js ''k1'', description = js ''Outcome 1''\<rparr>,
      \<lparr>name = js ''Theoretical Understanding'', description = []\<rparr>,
      \<lparr>name = js ''k2'', description = js ''Outcome 2''\<rparr>] (js ''pe'') (js ''100'') =
   Inr [frameworkRow \<lparr>name = js ''Physical Education'', description = js ''Program desc''\<rparr> (js ''100''),
        ROW_STANDARD_VALUES
          (newRow (Str []) (Str (js ''PE-k1'')) (Str (js ''k1'')) (Str (js ''Outcome 1'')) (Str []) Undefined),
        ROW_STANDARD_VALUES
          (newRow (Str (js ''PE-K'')) (Str (js ''PE-K-TU'')) (Str (js ''Theoretical Understanding''))
             (Str []) (Str []) Undefined),
        ROW_STANDARD_VALUES
          (newRow (Str (js ''PE-K-TU'')) (Str (js ''PE-K-TU-k2'')) (Str (js ''k2'')) (Str (js ''Outcome 2''))
             (Str []) Undefined)]"
  by (simp add: tableA_eval js_eval)

text \<open>
  C2, amended. Let a record after the first have a name matching \<open>^[Kk]\d+$\<close>,
  \<open>^[Ss]\d+$\<close> or \<open>^[Cc]\d+$\<close>, and let the default sub-area of the letter be
  Theoretical Understanding, Generic Problem Solving or Autonomy \<open>&\<close> Responsibility.
  In the second variant its parent is the identifier of that sub-area (the prefix followed by
  \<open>-K-TU\<close>, \<open>-S-GPS\<close> or \<open>-C-ARC\<close>) and its identifier is the parent, a
  hyphen and the name in upper case. In the first variant, if a record with the name of
  that sub-area stands between the first record and this one (the first record is the
  framework and is never entered in the area table), its parent is the identifier of the
  sub-area
  (the prefix followed by \<open>-K-TU\<close>, \<open>-S-GPS\<close> or \<open>-C-AR\<close>) and its
  identifier is the parent, a hyphen and the name as written; otherwise its parent is empty
  and its identifier is the prefix, a hyphen and the name as written.
\<close>

theorem leaf_outcome_ids:
  assumes "(initials, subArea, suffixA, suffixB) \<in> set leafRules"
    and "matchesInitialDigits initials (name r)"
  shows "(\<exists>rows. cleanAndReformatCompetencies_bc h (d0 # pre @ r # post) programName fileId = Inr rows \<and>
            Short_name (rows ! (1 + length pre)) = Str (name r) \<and>
            Parent_ID_number (rows ! (1 + length pre)) = Str (englishPrefix h programName @ suffixB) \<and>
            ID_number (rows ! (1 + length pre)) =
              Str (englishPrefix h programName @ suffixB @ js ''-'' @ map asciiUpper (name r))) \<and>
         (\<exists>rows. cleanAndReformatCompetencies (d0 # pre @ r # post) programName fileId = Inr rows \<and>
            Short_name (rows ! (1 + length (filter (\<lambda>x. name x \<noteq> []) pre))) = Str (name r) \<and>
            Parent_ID_number (rows ! (1 + length (filter (\<lambda>x. name x \<noteq> []) pre))) =
              (if subArea \<in> name ` set pre then Str (programPrefix d0 programName @ suffixA) else Str []) \<and>
            ID_number (rows ! (1 + length (filter (\<lambda>x. name x \<noteq> []) pre))) =
              (if subArea \<in> name ` set pre
               then Str (programPrefix d0 programName @ suffixA @ js ''-'' @ name r)
               else Str (programPrefix d0 programName @ js ''-'' @ name r)))"
proof -
  from matchesInitialDigits_chars [OF assms(2)] have ne: "name r \<noteq> []" by auto
  have "\<exists>rows. cleanAndReformatCompetencies_bc h (d0 # pre @ r # post) programName fileId = Inr rows \<and>
            Short_name (rows ! (1 + length pre)) = Str (name r) \<and>
            Parent_ID_number (rows ! (1 + length pre)) = Str (englishPrefix h programName @ suffixB) \<and>
            ID_number (rows ! (1 + length pre)) =
              Str (englishPrefix h programName @ suffixB @ js ''-'' @ map asciiUpper (name r))"
    by (simp add: reformat_bc_Cons processRows_bc_nth classify_bc_leaf [OF assms] row_eval)
  moreover have "\<exists>rows. cleanAndReformatCompetencies (d0 # pre @ r # post) programName fileId = Inr rows \<and>
            Short_name (rows ! (1 + length (filter (\<lambda>x. name x \<noteq> []) pre))) = Str (name r) \<and>
            Parent_ID_number (rows ! (1 + length (filter (\<lambda>x. name x \<noteq> []) pre))) =
              (if subArea \<in> name ` set pre then Str (programPrefix d0 programName @ suffixA) else Str []) \<and>
            ID_number (rows ! (1 + length (filter (\<lambda>x. name x \<noteq> []) pre))) =
              (if subArea \<in> name ` set pre
               then Str (programPrefix d0 programName @ suffixA @ js ''-'' @ name r)
               else Str (programPrefix d0 programName @ js ''-'' @ name r))"
    by (simp add: reformat_Cons processRows_nth [OF ne] classify_leaf [OF assms] row_eval)
  ultimately show ?thesis by (rule conjI)
qed

theorem leaf_outcome_ids_witness:
  "(js ''Kk'', js ''Theoretical Understanding'', js ''-K-TU'', js ''-K-TU'') \<in> set leafRules \<and>
   matchesInitialDigits (js ''Kk'') (js ''k1'') \<and>
   (\<exists>rows. cleanAndReformatCompetencies_bc exampleHost
        [\<lparr>name = js ''Physical Education'', description = js ''Program desc''\<rparr>,
         \<lparr>name = js ''Knowledge'', description = []\<rparr>,
         \<lparr>name = js ''Theoretical Understanding'', description = []\<rparr>,
         \<lparr>name = js ''k1'', description = js ''Outcome 1''\<rparr>] (js ''Physical Education'') (js ''100'')
        = Inr rows \<and>
      Short_name (rows ! 3) = Str (js ''k1'') \<and>
      Parent_ID_number (rows ! 3) = Str (js ''PE-K-TU'') \<and>
      ID_number (rows ! 3) = Str (js ''PE-K-TU-K1'')) \<and>
   (\<exists>rows. cleanAndReformatCompetencies
        [\<lparr>name = js ''Physical Education'', description = js ''Program desc''\<rparr>,
         \<lparr>name = js ''Knowledge'', description = []\<rparr>,
         \<lparr>name = js ''Theoretical Understanding'', description = []\<rparr>,
         \<lparr>name = js ''k1'', description = js ''Outcome 1''\<rparr>] (js ''Physical Education'') (js ''100'')
        = Inr rows \<and>
      Short_name (rows ! 3) = Str (js ''k1'') \<and>
      Parent_ID_number (rows ! 3) = Str (js ''PE-K-TU'') \<and>
      ID_number (rows ! 3) = Str (js ''PE-K-TU-k1''))"
proof -
  have h1: "(js ''Kk'', js ''Theoretical Understanding'', js ''-K-TU'', js ''-K-TU'') \<in> set leafRules"
    by (simp add: leafRules_def)
  have h2: "matchesInitialDigits (js ''Kk'')
      (name \<lparr>name = js ''k1'', description = js ''Outcome 1''\<rparr>)"
    by (simp add: matchesInitialDigits_def js_def isDigit_def)
  have e: "englishPrefix exampleHost (js ''Physical Education'') = js ''PE''"
    by (simp add: bc_eval js_eval)
  have p: "programPrefix \<lparr>name = js ''Physical Education'', description = js ''Program desc''\<rparr>
      (js ''Physical Education'') = js ''PE''"
    by (simp add: programPrefix_def js_eval)
  have u: "map asciiUpper (js ''k1'') = js ''K1''"
    by (simp add: js_eval)
  have three: "1 + length [\<lparr>name = js ''Knowledge'', description = []\<rparr>,
         \<lparr>name = js ''Theoretical Understanding'', description = []\<rparr>] = 3"
     "1 + length (filter (\<lambda>x. name x \<noteq> []) [\<lparr>name = js ''Knowledge'', description = []\<rparr>,
         \<lparr>name = js ''Theoretical Understanding'', description = []\<rparr>]) = 3"
    by simp_all
  from leaf_outcome_ids [OF h1 h2,
      of exampleHost "\<lparr>name = js ''Physical Education'', description = js ''Program desc''\<rparr>"
        "[\<lparr>name = js ''Knowledge'', description = []\<rparr>,
          \<lparr>name = js ''Theoretical Understanding'', description = []\<rparr>]" "[]"
        "js ''Physical Education''" "js ''100''"]
  have "(\<exists>rows. cleanAndReformatCompetencies_bc exampleHost
        [\<lparr>name = js ''Physical Education'', description = js ''Program desc''\<rparr>,
         \<lparr>name = js ''Knowledge'', description = []\<rparr>,
         \<lparr>name = js ''Theoretical Understanding'', description = []\<rparr>,
         \<lparr>name = js ''k1'', description = js ''Outcome 1''\<rparr>] (js ''Physical Education'') (js ''100'')
        = Inr rows \<and>
      Short_name (rows ! 3) = Str (js ''k1'') \<and>
      Parent_ID_number (rows ! 3) = Str (js ''PE-K-TU'') \<and>
      ID_number (rows ! 3) = Str (js ''PE-K-TU-K1'')) \<and>
   (\<exists>rows. cleanAndReformatCompetencies
        [\<lparr>name = js ''Physical Education'', description = js ''Program desc''\<rparr>,
         \<lparr>name = js ''Knowledge'', description = []\<rparr>,
         \<lparr>name = js ''Theoretical Understanding'', description = []\<rparr>,
         \<lparr>name = js ''k1'', description = js ''Outcome 1''\<rparr>] (js ''Physical Education'') (js ''100'')
        = Inr rows \<and>
      Short_name (rows ! 3) = Str (js ''k1'') \<and>
      Parent_ID_number (rows ! 3) = Str (js ''PE-K-TU'') \<and>
      ID_number (rows ! 3) = Str (js ''PE-K-TU-k1''))"
    unfolding three e p by (simp add: u js_append [symmetric])
  with h1 h2 show ?thesis by simp
qed

text \<open>
  The first record is the framework whatever its name is: a leaf outcome that follows a
  first record named like its default sub-area has no parent in the first variant.
\<close>

lemma leaf_after_framework_row:
  "cleanAndReformatCompetencies
     [\<lparr>name = js ''Theoretical Understanding'', description = []\<rparr>,
      \<lparr>name = js ''K1'', description = js ''Outcome 1''\<rparr>] (js ''pe'') (js ''100'') =
   Inr [frameworkRow \<lparr>name = js ''Theoretical Understanding'', description = []\<rparr> (js ''100''),
        ROW_STANDARD_VALUES
          (newRow (Str []) (Str (js ''TU-K1'')) (Str (js ''K1'')) (Str (js ''Outcome 1'')) (Str []) Undefined)]"
  by (simp add: tableA_eval js_eval)

section \<open>Sub-areas and the seeded area table\<close>

lemma subarea_row:
  assumes "subCategoryParents (name r) = Some parentName"
  shows "\<exists>pa. initialStructureMap p parentName = Some pa \<and>
           area_id pa \<in> {p @ js ''-K'', p @ js ''-S'', p @ js ''-C''} \<and>
           processRows p (seenMap p seen) (pre @ r # post) ! length (filter (\<lambda>x. name x \<noteq> []) pre) =
           ROW_STANDARD_VALUES
             (newRow (Str (area_id pa)) (Str (area_id pa @ js ''-'' @ generateCode (name r)))
                (Str (name r)) (Str (description r)) (Str []) Undefined)"
proof -
  from assms have ne: "name r \<noteq> []" by (auto simp: subCategoryParents_def)
  from subCategoryParents_cases [OF assms, of p] initialStructureMap_major [of parentName p]
  obtain pa where pa: "initialStructureMap p parentName = Some pa"
    and "area_id pa \<in> {p @ js ''-K'', p @ js ''-S'', p @ js ''-C''}" by auto
  then show ?thesis
    by (simp add: processRows_nth [OF ne] classify_sub [OF assms pa])
qed

text \<open>
  C10. In the first variant the area table holds the three top-level areas before any
  record is scanned, and no step removes them. So a row named after a sub-area gets the
  seeded identifier of its major area as parent and that identifier, a hyphen and its own
  code as identifier, wherever it stands in the input and whether or not a row of the
  major area has come before it: \<open>Theoretical Understanding\<close> always gets the parent
  \<open>{prefix}-K\<close> and the identifier \<open>{prefix}-K-TU\<close>.
\<close>

theorem seeded_subarea_parent:
  "\<exists>rows. cleanAndReformatCompetencies (d0 # pre @ r # post) programName fileId = Inr rows \<and>
     (name r = js ''Theoretical Understanding'' \<longrightarrow>
        Parent_ID_number (rows ! (1 + length (filter (\<lambda>x. name x \<noteq> []) pre))) =
          Str (programPrefix d0 programName @ js ''-K'') \<and>
        ID_number (rows ! (1 + length (filter (\<lambda>x. name x \<noteq> []) pre))) =
          Str (programPrefix d0 programName @ js ''-K-TU'')) \<and>
     (\<forall>parentName. subCategoryParents (name r) = Some parentName \<longrightarrow>
        (\<exists>pa. initialStructureMap (programPrefix d0 programName) parentName = Some pa \<and>
           area_id pa \<in> {programPrefix d0 programName @ js ''-K'', programPrefix d0 programName @ js ''-S'',
                        programPrefix d0 programName @ js ''-C''} \<and>
           Parent_ID_number (rows ! (1 + length (filter (\<lambda>x. name x \<noteq> []) pre))) = Str (area_id pa) \<and>
           ID_number (rows ! (1 + length (filter (\<lambda>x. name x \<noteq> []) pre))) =
             Str (area_id pa @ js ''-'' @ generateCode (name r))))"
proof -
  let ?P = "programPrefix d0 programName"
  let ?k = "length (filter (\<lambda>x. name x \<noteq> []) pre)"
  let ?rows = "processRows ?P (seenMap ?P {}) (pre @ r # post)"
  have gen: "\<exists>pa. initialStructureMap ?P parentName = Some pa \<and>
           area_id pa \<in> {?P @ js ''-K'', ?P @ js ''-S'', ?P @ js ''-C''} \<and>
           Parent_ID_number (?rows ! ?k) = Str (area_id pa) \<and>
           ID_number (?rows ! ?k) = Str (area_id pa @ js ''-'' @ generateCode (name r))"
    if "subCategoryParents (name r) = Some parentName" for parentName
    using subarea_row [OF that, of ?P "{}" pre post] by (auto simp: row_eval)
  have tu: "Parent_ID_number (?rows ! ?k) = Str (?P @ js ''-K'') \<and>
        ID_number (?rows ! ?k) = Str (?P @ js ''-K-TU'')"
    if n: "name r = js ''Theoretical Understanding''"
  proof -
    have "subCategoryParents (name r) = Some (js ''Knowledge'')"
      by (simp add: n subCategoryParents_def)
    from gen [OF this] show ?thesis
      by (auto simp: n initialStructureMap_def generateCode_subareas js_append [symmetric])
  qed
  show ?thesis
    unfolding reformat_Cons using gen tu by simp
qed

theorem seeded_subarea_parent_witness:
  "\<exists>rows. cleanAndReformatCompetencies
       [\<lparr>name = js ''Physical Education'', description = js ''Program desc''\<rparr>,
        \<lparr>name = js ''Practical Application'', description = []\<rparr>,
        \<lparr>name = js ''Theoretical Understanding'', description = []\<rparr>] (js ''pe'') (js ''100'') = Inr rows \<and>
     Parent_ID_number (rows ! 2) = Str (js ''PE-K'') \<and> ID_number (rows ! 2) = Str (js ''PE-K-TU'')"
proof -
  have p: "programPrefix \<lparr>name = js ''Physical Education'', description = js ''Program desc''\<rparr>
      (js ''pe'') = js ''PE''"
    by (simp add: programPrefix_def js_eval)
  have k: "1 + length (filter (\<lambda>x. name x \<noteq> []) [\<lparr>name = js ''Practical Application'', description = []\<rparr>]) = 2"
    by simp
  from seeded_subarea_parent [of "\<lparr>name = js ''Physical Education'', description = js ''Program desc''\<rparr>"
        "[\<lparr>name = js ''Practical Application'', description = []\<rparr>]"
        "\<lparr>name = js ''Theoretical Understanding'', description = []\<rparr>" "[]" "js ''pe''" "js ''100''"]
  show ?thesis
    unfolding k p by (auto simp: js_append [symmetric])
qed

section \<open>Parents\<close>

lemma parentsKnown_nth:
  "parentsKnown exempt known rs \<Longrightarrow> i < length rs \<Longrightarrow>
   exempt (rs ! i) \<or> Parent_ID_number (rs ! i) \<in> known \<or>
   (\<exists>j<i. ID_number (rs ! j) = Parent_ID_number (rs ! i))"
proof (induction rs arbitrary: known i)
  case Nil
  then show ?case by simp
next
  case (Cons r rs)
  show ?case
  proof (cases i)
    case 0
    with Cons.prems show ?thesis by auto
  next
    case (Suc k)
    with Cons.prems have "parentsKnown exempt (insert (ID_number r) known) rs" "k < length rs"
      by auto
    from Cons.IH [OF this]
    consider "exempt (rs ! k)" | "Parent_ID_number (rs ! k) = ID_number r"
      | "Parent_ID_number (rs ! k) \<in> known"
      | j where "j < k" "ID_number (rs ! j) = Parent_ID_number (rs ! k)"
      by auto
    then show ?thesis
    proof cases
      case 1
      then show ?thesis by (simp add: Suc)
    next
      case 2
      then have "0 < i \<and> ID_number ((r # rs) ! 0) = Parent_ID_number ((r # rs) ! i)"
        by (simp add: Suc)
      then show ?thesis by blast
    next
      case 3
      then show ?thesis by (simp add: Suc)
    next
      case 4
      then have "Suc j < i \<and> ID_number ((r # rs) ! Suc j) = Parent_ID_number ((r # rs) ! i)"
        by (simp add: Suc)
      then show ?thesis by blast
    qed
  qed
qed

lemma defaultParentId_Some:
  assumes "defaultParentId p seen nm = Some pid"
  shows "\<exists>n pn pa. n \<in> seen \<and> subCategoryParents n = Some pn \<and> initialStructureMap p pn = Some pa \<and>
           pid = area_id pa @ js ''-'' @ generateCode n"
proof -
  from assms consider
      "js ''Theoretical Understanding'' \<in> seen" "pid = p @ js ''-K-TU''"
    | "js ''Generic Problem Solving'' \<in> seen" "pid = p @ js ''-S-GPS''"
    | "js ''Autonomy & Responsibility'' \<in> seen" "pid = p @ js ''-C-AR''"
    by (auto simp: defaultParentId_def split: if_splits)
  then show ?thesis
  proof cases
    case 1
    have "subCategoryParents (js ''Theoretical Understanding'') = Some (js ''Knowledge'')"
      "initialStructureMap p (js ''Knowledge'') = Some \<lparr>area_id = p @ js ''-K'', area_parent = []\<rparr>"
      by (simp_all add: subCategoryParents_def initialStructureMap_def)
    moreover have "pid = area_id \<lparr>area_id = p @ js ''-K'', area_parent = []\<rparr> @ js ''-'' @
        generateCode (js ''Theoretical Understanding'')"
      by (simp add: 1 generateCode_subareas js_append [symmetric])
    ultimately show ?thesis using 1(1) by blast
  next
    case 2
    have "subCategoryParents (js ''Generic Problem Solving'') = Some (js ''Skills'')"
      "initialStructureMap p (js ''Skills'') = Some \<lparr>area_id = p @ js ''-S'', area_parent = []\<rparr>"
      by (simp_all add: subCategoryParents_def initialStructureMap_def)
    moreover have "pid = area_id \<lparr>area_id = p @ js ''-S'', area_parent = []\<rparr> @ js ''-'' @
        generateCode (js ''Generic Problem Solving'')"
      by (simp add: 2 generateCode_subareas js_append [symmetric])
    ultimately show ?thesis using 2(1) by blast
  next
    case 3
    have "subCategoryParents (js ''Autonomy & Responsibility'') = Some (js ''Competence'')"
      "initialStructureMap p (js ''Competence'') = Some \<lparr>area_id = p @ js ''-C'', area_parent = []\<rparr>"
      by (simp_all add: subCategoryParents_def initialStructureMap_def)
    moreover have "pid = area_id \<lparr>area_id = p @ js ''-C'', area_parent = []\<rparr> @ js ''-'' @
        generateCode (js ''Autonomy & Responsibility'')"
      by (simp add: 3 generateCode_subareas js_append [symmetric])
    ultimately show ?thesis using 3(1) by blast
  qed
qed

lemma processRows_parentsKnown:
  assumes "Str [] \<in> known"
    and "\<And>n pn pa. n \<in> seen \<Longrightarrow> subCategoryParents n = Some pn \<Longrightarrow> initialStructureMap p pn = Some pa
           \<Longrightarrow> Str (area_id pa @ js ''-'' @ generateCode n) \<in> known"
  shows "parentsKnown
           (\<lambda>r. Short_name r \<in> Str ` set objectPrototypeKeys \<or>
                (\<exists>nm parentName pa. Short_name r = Str nm \<and> subCategoryParents nm = Some parentName \<and>
                   initialStructureMap p parentName = Some pa \<and> Parent_ID_number r = Str (area_id pa)))
           known (processRows p (seenMap p seen) rs)"
  using assms
proof (induction rs arbitrary: seen known)
  case Nil
  then show ?case by simp
next
  case (Cons r rs)
  let ?ex = "\<lambda>r. Short_name r \<in> Str ` set objectPrototypeKeys \<or>
                (\<exists>nm parentName pa. Short_name r = Str nm \<and> subCategoryParents nm = Some parentName \<and>
                   initialStructureMap p parentName = Some pa \<and> Parent_ID_number r = Str (area_id pa))"
  show ?case
  proof (cases "name r = []")
    case True
    then show ?thesis using Cons.IH [OF Cons.prems] by simp
  next
    case ne: False
    have step: "parentsKnown ?ex (insert idv known) (processRows p (seenMap p seen) rs)" for idv
      by (rule Cons.IH) (use Cons.prems in auto)
    show ?thesis
    proof (cases "initialStructureMap p (name r)")
      case (Some a)
      then show ?thesis using ne Cons.prems(1) step
        by (simp add: classify_major row_eval)
    next
      case None
      note n = this
      show ?thesis
      proof (cases "subCategoryParents (name r)")
        case (Some pn)
        from subCategoryParents_cases [OF Some, of p] initialStructureMap_major [of pn p]
        obtain pa where pa: "initialStructureMap p pn = Some pa" by auto
        let ?row = "ROW_STANDARD_VALUES
            (newRow (Str (area_id pa)) (Str (area_id pa @ js ''-'' @ generateCode (name r)))
               (Str (name r)) (Str (description r)) (Str []) Undefined)"
        have "parentsKnown ?ex (insert (Str (area_id pa @ js ''-'' @ generateCode (name r))) known)
                (processRows p (seenMap p (insert (name r) seen)) rs)"
        proof (rule Cons.IH)
          show "Str [] \<in> insert (Str (area_id pa @ js ''-'' @ generateCode (name r))) known"
            using Cons.prems(1) by simp
          fix n pn' pa'
          assume "n \<in> insert (name r) seen" "subCategoryParents n = Some pn'"
            "initialStructureMap p pn' = Some pa'"
          then show "Str (area_id pa' @ js ''-'' @ generateCode n)
                  \<in> insert (Str (area_id pa @ js ''-'' @ generateCode (name r))) known"
            using Some pa Cons.prems(2) by (cases "n = name r") auto
        qed
        moreover have "Short_name ?row = Str (name r) \<and> subCategoryParents (name r) = Some pn \<and>
            initialStructureMap p pn = Some pa \<and> Parent_ID_number ?row = Str (area_id pa)"
          using Some pa by (simp add: row_eval)
        then have "?ex ?row" by blast
        moreover have "ID_number ?row = Str (area_id pa @ js ''-'' @ generateCode (name r))"
          by (simp add: row_eval)
        ultimately show ?thesis using ne
          by (simp add: classify_sub [OF Some pa] del: ex_simps)
      next
        case None
        show ?thesis
        proof (cases "name r \<in> set objectPrototypeKeys")
          case True
          then show ?thesis using ne step
            by (simp add: classify_proto row_eval)
        next
          case False
          show ?thesis
          proof (cases "defaultParentId p seen (name r)")
            case dn: None
            then show ?thesis using ne step Cons.prems(1)
              by (simp add: classify_other [OF n None False] row_eval)
          next
            case (Some pid)
            from defaultParentId_Some [OF Some] Cons.prems(2) have "Str pid \<in> known" by blast
            then show ?thesis using ne step Some
              by (simp add: classify_other [OF n None False] row_eval)
          qed
        qed
      qed
    qed
  qed
qed

lemma classify_bc_parent:
  assumes "classify_bc h pn cur nm = (parentId, idNumber, cur')"
  shows "(parentId = [] \<or> parentId = cur \<or>
          (nm = js ''Theoretical Understanding'' \<or> nm = js ''Practical Application'') \<and>
            parentId = englishPrefix h pn @ js ''-K'' \<or>
          (nm = js ''Generic Problem Solving'' \<or> nm = js ''Communication Skills'') \<and>
            parentId = englishPrefix h pn @ js ''-S'' \<or>
          nm = js ''Autonomy & Responsibility'' \<and> parentId = englishPrefix h pn @ js ''-C'' \<or>
          matchesInitialDigits (js ''Kk'') nm \<and> parentId = englishPrefix h pn @ js ''-K-TU'' \<or>
          matchesInitialDigits (js ''Ss'') nm \<and> parentId = englishPrefix h pn @ js ''-S-GPS'' \<or>
          matchesInitialDigits (js ''Cc'') nm \<and> parentId = englishPrefix h pn @ js ''-C-ARC'') \<and>
         cur' \<in> {cur, idNumber}"
proof -
  have code: "areaCodeOf (js ''Theoretical Understanding'') = js ''K-TU''"
    "areaCodeOf (js ''Generic Problem Solving'') = js ''S-GPS''"
    "areaCodeOf (js ''Autonomy & Responsibility'') = js ''C-ARC''"
    by (simp_all add: areaCodeOf_def MAJOR_AREA_MAP_def)
  have j: "js ''-'' @ js ''K-TU'' = js ''-K-TU''" "js ''-'' @ js ''S-GPS'' = js ''-S-GPS''"
    "js ''-'' @ js ''C-ARC'' = js ''-C-ARC''"
    by (simp_all add: js_append [symmetric])
  show ?thesis
    using assms unfolding classify_bc_def Let_def code j
    by (auto split: if_splits)
qed

lemma processRows_bc_parentsKnown:
  assumes "Str [] \<in> known" and "Str cur \<in> known"
  shows "parentsKnown
           (\<lambda>r. \<exists>nm. Short_name r = Str nm \<and>
              ((nm = js ''Theoretical Understanding'' \<or> nm = js ''Practical Application'') \<and>
                 Parent_ID_number r = Str (englishPrefix h pn @ js ''-K'') \<or>
               (nm = js ''Generic Problem Solving'' \<or> nm = js ''Communication Skills'') \<and>
                 Parent_ID_number r = Str (englishPrefix h pn @ js ''-S'') \<or>
               nm = js ''Autonomy & Responsibility'' \<and>
                 Parent_ID_number r = Str (englishPrefix h pn @ js ''-C'') \<or>
               matchesInitialDigits (js ''Kk'') nm \<and>
                 Parent_ID_number r = Str (englishPrefix h pn @ js ''-K-TU'') \<or>
               matchesInitialDigits (js ''Ss'') nm \<and>
                 Parent_ID_number r = Str (englishPrefix h pn @ js ''-S-GPS'') \<or>
               matchesInitialDigits (js ''Cc'') nm \<and>
                 Parent_ID_number r = Str (englishPrefix h pn @ js ''-C-ARC'')))
           known (processRows_bc h pn cur rs)"
  using assms
proof (induction rs arbitrary: cur known)
  case Nil
  then show ?case by simp
next
  case (Cons r rs)
  let ?ex = "\<lambda>r. \<exists>nm. Short_name r = Str nm \<and>
              ((nm = js ''Theoretical Understanding'' \<or> nm = js ''Practical Application'') \<and>
                 Parent_ID_number r = Str (englishPrefix h pn @ js ''-K'') \<or>
               (nm = js ''Generic Problem Solving'' \<or> nm = js ''Communication Skills'') \<and>
                 Parent_ID_number r = Str (englishPrefix h pn @ js ''-S'') \<or>
               nm = js ''Autonomy & Responsibility'' \<and>
                 Parent_ID_number r = Str (englishPrefix h pn @ js ''-C'') \<or>
               matchesInitialDigits (js ''Kk'') nm \<and>
                 Parent_ID_number r = Str (englishPrefix h pn @ js ''-K-TU'') \<or>
               matchesInitialDigits (js ''Ss'') nm \<and>
                 Parent_ID_number r = Str (englishPrefix h pn @ js ''-S-GPS'') \<or>
               matchesInitialDigits (js ''Cc'') nm \<and>
                 Parent_ID_number r = Str (englishPrefix h pn @ js ''-C-ARC''))"
  obtain parentId idNumber cur' where c: "classify_bc h pn cur (name r) = (parentId, idNumber, cur')"
    by (cases "classify_bc h pn cur (name r)") auto
  note cp = classify_bc_parent [OF c]
  let ?row = "STANDARD_VALUES_bc
      (newRow (Str parentId) (Str idNumber) (Str (name r)) (Str (description r)) (Str []) Undefined)"
  have f: "Short_name ?row = Str (name r)" "Parent_ID_number ?row = Str parentId"
    "ID_number ?row = Str idNumber"
    by (simp_all add: row_eval)
  have "?ex ?row \<or> Parent_ID_number ?row \<in> known"
  proof (cases "parentId = [] \<or> parentId = cur")
    case True
    then show ?thesis using Cons.prems f by auto
  next
    case False
    with cp have "?ex ?row" unfolding f by blast
    then show ?thesis ..
  qed
  moreover have "parentsKnown ?ex (insert (ID_number ?row) known) (processRows_bc h pn cur' rs)"
    unfolding f
  proof (rule Cons.IH)
    show "Str [] \<in> insert (Str idNumber) known" using Cons.prems(1) by simp
    show "Str cur' \<in> insert (Str idNumber) known" using cp Cons.prems(2) by auto
  qed
  ultimately show ?case by (simp add: c del: ex_simps)
qed

text \<open>
  C1, as stated, fails on both variants. The first variant takes the parent of a sub-area
  from the seeded table, whether or not a row of the major area has been emitted; the
  second variant builds the parent of a sub-area and of a leaf outcome from fixed codes.
  Below, no row has the identifier \<open>PE-K\<close>, respectively \<open>ACC-K-TU\<close>.
\<close>

theorem parent_resolution_counterexample:
  "cleanAndReformatCompetencies
     [\<lparr>name = js ''Physical Education'', description = js ''Program desc''\<rparr>,
      \<lparr>name = js ''Theoretical Understanding'', description = []\<rparr>] (js ''pe'') (js ''100'') =
   Inr [frameworkRow \<lparr>name = js ''Physical Education'', description = js ''Program desc''\<rparr> (js ''100''),
        ROW_STANDARD_VALUES
          (newRow (Str (js ''PE-K'')) (Str (js ''PE-K-TU'')) (Str (js ''Theoretical Understanding''))
             (Str []) (Str []) Undefined)] \<and>
   ID_number (frameworkRow \<lparr>name = js ''Physical Education'', description = js ''Program desc''\<rparr> (js ''100''))
     = Str (js ''100'') \<and>
   Parent_ID_number (ROW_STANDARD_VALUES
          (newRow (Str (js ''PE-K'')) (Str (js ''PE-K-TU'')) (Str (js ''Theoretical Understanding''))
             (Str []) (Str []) Undefined)) = Str (js ''PE-K'') \<and>
   Str (js ''PE-K'') \<noteq> Str [] \<and> Str (js ''PE-K'') \<noteq> Str (js ''100'') \<and>
   cleanAndReformatCompetencies_bc exampleHost
     [\<lparr>name = js ''Accounting'', description = js ''Program''\<rparr>,
      \<lparr>name = js ''K1'', description = js ''Outcome 1''\<rparr>] (js ''Accounting'') (js ''2299'') =
   Inr [frameworkRow_bc \<lparr>name = js ''Accounting'', description = js ''Program''\<rparr> (js ''2299''),
        STANDARD_VALUES_bc
          (newRow (Str (js ''ACC-K-TU'')) (Str (js ''ACC-K-TU-K1'')) (Str (js ''K1'')) (Str (js ''Outcome 1''))
             (Str []) Undefined)] \<and>
   ID_number (frameworkRow_bc \<lparr>name = js ''Accounting'', description = js ''Program''\<rparr> (js ''2299''))
     = Str (js ''2299'') \<and>
   Str (js ''ACC-K-TU'') \<noteq> Str [] \<and> Str (js ''ACC-K-TU'') \<noteq> Str (js ''2299'')"
  by (simp add: tableA_eval bc_eval js_eval row_eval)

text \<open>
  C1, amended. In the output of either variant on a non-empty record sequence, the
  \<open>Parent ID number\<close> of a row is the empty string, or the \<open>ID number\<close> of a row
  at a strictly earlier position, or the identifier the variant derives for the canonical
  parent area of that very row, whether or not a row of that area has been emitted. In the
  first variant this third case is only that of a row named after a canonical sub-area,
  whose parent is the seeded identifier of its major area. In the second variant it is that
  of a row named after a sub-area, whose parent is \<open>{prefix}-K\<close>, \<open>{prefix}-S\<close> or
  \<open>{prefix}-C\<close> for its major area, and that of a leaf outcome matching
  \<open>^[Kk]\d+$\<close>, \<open>^[Ss]\d+$\<close> or \<open>^[Cc]\d+$\<close>, whose parent is
  \<open>{prefix}-K-TU\<close>, \<open>{prefix}-S-GPS\<close> or \<open>{prefix}-C-ARC\<close>. For the first
  variant the rows named like a property of \<open>Object.prototype\<close> are left out of the
  statement.
\<close>

theorem parent_resolution:
  "(\<exists>rows. cleanAndReformatCompetencies (d0 # rest) programName fileId = Inr rows \<and>
      (\<forall>i<length rows.
         Short_name (rows ! i) \<in> Str ` set objectPrototypeKeys \<or>
         Parent_ID_number (rows ! i) = Str [] \<or>
         (\<exists>j<i. ID_number (rows ! j) = Parent_ID_number (rows ! i)) \<or>
         (\<exists>nm parentName pa.
            Short_name (rows ! i) = Str nm \<and> subCategoryParents nm = Some parentName \<and>
            initialStructureMap (programPrefix d0 programName) parentName = Some pa \<and>
            Parent_ID_number (rows ! i) = Str (area_id pa)))) \<and>
   (\<exists>rows. cleanAndReformatCompetencies_bc h (d0 # rest) programName fileId = Inr rows \<and>
      (\<forall>i<length rows.
         Parent_ID_number (rows ! i) = Str [] \<or>
         (\<exists>j<i. ID_number (rows ! j) = Parent_ID_number (rows ! i)) \<or>
         (\<exists>nm. Short_name (rows ! i) = Str nm \<and>
            ((nm = js ''Theoretical Understanding'' \<or> nm = js ''Practical Application'') \<and>
               Parent_ID_number (rows ! i) = Str (englishPrefix h programName @ js ''-K'') \<or>
             (nm = js ''Generic Problem Solving'' \<or> nm = js ''Communication Skills'') \<and>
               Parent_ID_number (rows ! i) = Str (englishPrefix h programName @ js ''-S'') \<or>
             nm = js ''Autonomy & Responsibility'' \<and>
               Parent_ID_number (rows ! i) = Str (englishPrefix h programName @ js ''-C'') \<or>
             matchesInitialDigits (js ''Kk'') nm \<and>
               Parent_ID_number (rows ! i) = Str (englishPrefix h programName @ js ''-K-TU'') \<or>
             matchesInitialDigits (js ''Ss'') nm \<and>
               Parent_ID_number (rows ! i) = Str (englishPrefix h programName @ js ''-S-GPS'') \<or>
             matchesInitialDigits (js ''Cc'') nm \<and>
               Parent_ID_number (rows ! i) = Str (englishPrefix h programName @ js ''-C-ARC'')))))"
proof -
  let ?P = "programPrefix d0 programName"
  let ?E = "englishPrefix h programName"
  let ?exA = "\<lambda>r. Short_name r \<in> Str ` set objectPrototypeKeys \<or>
                (\<exists>nm parentName pa. Short_name r = Str nm \<and> subCategoryParents nm = Some parentName \<and>
                   initialStructureMap ?P parentName = Some pa \<and> Parent_ID_number r = Str (area_id pa))"
  let ?exB = "\<lambda>r. \<exists>nm. Short_name r = Str nm \<and>
              ((nm = js ''Theoretical Understanding'' \<or> nm = js ''Practical Application'') \<and>
                 Parent_ID_number r = Str (?E @ js ''-K'') \<or>
               (nm = js ''Generic Problem Solving'' \<or> nm = js ''Communication Skills'') \<and>
                 Parent_ID_number r = Str (?E @ js ''-S'') \<or>
               nm = js ''Autonomy & Responsibility'' \<and>
                 Parent_ID_number r = Str (?E @ js ''-C'') \<or>
               matchesInitialDigits (js ''Kk'') nm \<and>
                 Parent_ID_number r = Str (?E @ js ''-K-TU'') \<or>
               matchesInitialDigits (js ''Ss'') nm \<and>
                 Parent_ID_number r = Str (?E @ js ''-S-GPS'') \<or>
               matchesInitialDigits (js ''Cc'') nm \<and>
                 Parent_ID_number r = Str (?E @ js ''-C-ARC''))"
  let ?rowsA = "frameworkRow d0 fileId # processRows ?P (seenMap ?P {}) rest"
  let ?rowsB = "frameworkRow_bc d0 fileId # processRows_bc h programName [] rest"
  have "parentsKnown ?exA (insert (ID_number (frameworkRow d0 fileId)) {Str []})
          (processRows ?P (seenMap ?P {}) rest)"
    by (rule processRows_parentsKnown) auto
  moreover have "Parent_ID_number (frameworkRow d0 fileId) = Str []"
    by (simp add: row_eval)
  ultimately have a: "parentsKnown ?exA {Str []} ?rowsA"
    by (simp del: ex_simps)
  have "parentsKnown ?exB (insert (ID_number (frameworkRow_bc d0 fileId)) {Str []})
          (processRows_bc h programName [] rest)"
    by (rule processRows_bc_parentsKnown) auto
  moreover have "Parent_ID_number (frameworkRow_bc d0 fileId) = Str []"
    by (simp add: row_eval)
  ultimately have b: "parentsKnown ?exB {Str []} ?rowsB"
    by (simp del: ex_simps)
  have "\<forall>i<length ?rowsA. Short_name (?rowsA ! i) \<in> Str ` set objectPrototypeKeys \<or>
         Parent_ID_number (?rowsA ! i) = Str [] \<or>
         (\<exists>j<i. ID_number (?rowsA ! j) = Parent_ID_number (?rowsA ! i)) \<or>
         (\<exists>nm parentName pa.
            Short_name (?rowsA ! i) = Str nm \<and> subCategoryParents nm = Some parentName \<and>
            initialStructureMap ?P parentName = Some pa \<and>
            Parent_ID_number (?rowsA ! i) = Str (area_id pa))"
    using parentsKnown_nth [OF a] by blast
  moreover have "\<forall>i<length ?rowsB. Parent_ID_number (?rowsB ! i) = Str [] \<or>
         (\<exists>j<i. ID_number (?rowsB ! j) = Parent_ID_number (?rowsB ! i)) \<or>
         ?exB (?rowsB ! i)"
    using parentsKnown_nth [OF b] by blast
  ultimately show ?thesis
    unfolding reformat_Cons reformat_bc_Cons by blast
qed

theorem parent_resolution_witness:
  "(\<exists>rows. cleanAndReformatCompetencies
        [\<lparr>name = js ''Physical Education'', description = js ''Program desc''\<rparr>,
         \<lparr>name = js ''Knowledge'', description = []\<rparr>,
         \<lparr>name = js ''Theoretical Understanding'', description = []\<rparr>,
         \<lparr>name = js ''K1'', description = js ''Outcome 1''\<rparr>] (js ''pe'') (js ''100'') = Inr rows \<and>
      3 < length rows \<and>
      (Short_name (rows ! 3) \<in> Str ` set objectPrototypeKeys \<or>
       Parent_ID_number (rows ! 3) = Str [] \<or>
       (\<exists>j<3. ID_number (rows ! j) = Parent_ID_number (rows ! 3)) \<or>
       (\<exists>nm parentName pa.
          Short_name (rows ! 3) = Str nm \<and> subCategoryParents nm = Some parentName \<and>
          initialStructureMap (js ''PE'') parentName = Some pa \<and>
          Parent_ID_number (rows ! 3) = Str (area_id pa)))) \<and>
   (\<exists>rows. cleanAndReformatCompetencies_bc exampleHost
        [\<lparr>name = js ''Physical Education'', description = js ''Program desc''\<rparr>,
         \<lparr>name = js ''Knowledge'', description = []\<rparr>,
         \<lparr>name = js ''Theoretical Understanding'', description = []\<rparr>,
         \<lparr>name = js ''K1'', description = js ''Outcome 1''\<rparr>] (js ''Physical Education'') (js ''100'')
        = Inr rows \<and>
      3 < length rows \<and>
      (Parent_ID_number (rows ! 3) = Str [] \<or>
       (\<exists>j<3. ID_number (rows ! j) = Parent_ID_number (rows ! 3)) \<or>
       (\<exists>nm. Short_name (rows ! 3) = Str nm \<and>
          ((nm = js ''Theoretical Understanding'' \<or> nm = js ''Practical Application'') \<and>
             Parent_ID_number (rows ! 3) = Str (js ''PE'' @ js ''-K'') \<or>
           (nm = js ''Generic Problem Solving'' \<or> nm = js ''Communication Skills'') \<and>
             Parent_ID_number (rows ! 3) = Str (js ''PE'' @ js ''-S'') \<or>
           nm = js ''Autonomy & Responsibility'' \<and>
             Parent_ID_number (rows ! 3) = Str (js ''PE'' @ js ''-C'') \<or>
           matchesInitialDigits (js ''Kk'') nm \<and>
             Parent_ID_number (rows ! 3) = Str (js ''PE'' @ js ''-K-TU'') \<or>
           matchesInitialDigits (js ''Ss'') nm \<and>
             Parent_ID_number (rows ! 3) = Str (js ''PE'' @ js ''-S-GPS'') \<or>
           matchesInitialDigits (js ''Cc'') nm \<and>
             Parent_ID_number (rows ! 3) = Str (js ''PE'' @ js ''-C-ARC'')))))"
proof -
  let ?d0 = "\<lparr>name = js ''Physical Education'', description = js ''Program desc''\<rparr>"
  let ?rest = "[\<lparr>name = js ''Knowledge'', description = []\<rparr>,
         \<lparr>name = js ''Theoretical Understanding'', description = []\<rparr>,
         \<lparr>name = js ''K1'', description = js ''Outcome 1''\<rparr>]"
  have e: "englishPrefix exampleHost (js ''Physical Education'') = js ''PE''"
    by (simp add: bc_eval js_eval)
  have p: "programPrefix ?d0 (js ''pe'') = js ''PE''"
    by (simp add: programPrefix_def js_eval)
  have la: "length rows = 4" if "cleanAndReformatCompetencies (?d0 # ?rest) (js ''pe'') (js ''100'') = Inr rows"
    for rows
  proof -
    from that have "rows = frameworkRow ?d0 (js ''100'') #
        processRows (programPrefix ?d0 (js ''pe'')) (seenMap (programPrefix ?d0 (js ''pe'')) {}) ?rest"
      unfolding reformat_Cons by simp
    then have "length rows = 1 + length (filter (\<lambda>r. name r \<noteq> []) ?rest)"
      by (simp only: list.size processRows_length)
    then show ?thesis by simp
  qed
  have lb: "length rows = 4"
    if "cleanAndReformatCompetencies_bc exampleHost (?d0 # ?rest) (js ''Physical Education'') (js ''100'') = Inr rows"
    for rows
  proof -
    from that have "rows = frameworkRow_bc ?d0 (js ''100'') #
        processRows_bc exampleHost (js ''Physical Education'') [] ?rest"
      unfolding reformat_bc_Cons by simp
    then have "length rows = 1 + length ?rest"
      by (simp only: list.size processRows_bc_length)
    then show ?thesis by simp
  qed
  note t = parent_resolution [of ?d0 ?rest "js ''pe''" "js ''100''" exampleHost, unfolded p]
  note t' = parent_resolution [of ?d0 ?rest "js ''Physical Education''" "js ''100''" exampleHost, unfolded e]
  from t [THEN conjunct1] obtain rowsA where
    a: "cleanAndReformatCompetencies (?d0 # ?rest) (js ''pe'') (js ''100'') = Inr rowsA"
    and a': "\<forall>i<length rowsA.
         Short_name (rowsA ! i) \<in> Str ` set objectPrototypeKeys \<or>
         Parent_ID_number (rowsA ! i) = Str [] \<or>
         (\<exists>j<i. ID_number (rowsA ! j) = Parent_ID_number (rowsA ! i)) \<or>
         (\<exists>nm parentName pa.
            Short_name (rowsA ! i) = Str nm \<and> subCategoryParents nm = Some parentName \<and>
            initialStructureMap (js ''PE'') parentName = Some pa \<and>
            Parent_ID_number (rowsA ! i) = Str (area_id pa))"
    by blast
  from t' [THEN conjunct2] obtain rowsB where
    b: "cleanAndReformatCompetencies_bc exampleHost (?d0 # ?rest) (js ''Physical Education'') (js ''100'') = Inr rowsB"
    and b': "\<forall>i<length rowsB.
         Parent_ID_number (rowsB ! i) = Str [] \<or>
         (\<exists>j<i. ID_number (rowsB ! j) = Parent_ID_number (rowsB ! i)) \<or>
         (\<exists>nm. Short_name (rowsB ! i) = Str nm \<and>
            ((nm = js ''Theoretical Understanding'' \<or> nm = js ''Practical Application'') \<and>
               Parent_ID_number (rowsB ! i) = Str (js ''PE'' @ js ''-K'') \<or>
             (nm = js ''Generic Problem Solving'' \<or> nm = js ''Communication Skills'') \<and>
               Parent_ID_number (rowsB ! i) = Str (js ''PE'' @ js ''-S'') \<or>
             nm = js ''Autonomy & Responsibility'' \<and>
               Parent_ID_number (rowsB ! i) = Str (js ''PE'' @ js ''-C'') \<or>
             matchesInitialDigits (js ''Kk'') nm \<and>
               Parent_ID_number (rowsB ! i) = Str (js ''PE'' @ js ''-K-TU'') \<or>
             matchesInitialDigits (js ''Ss'') nm \<and>
               Parent_ID_number (rowsB ! i) = Str (js ''PE'' @ js ''-S-GPS'') \<or>
             matchesInitialDigits (js ''Cc'') nm \<and>
               Parent_ID_number (rowsB ! i) = Str (js ''PE'' @ js ''-C-ARC'')))"
    by blast
  have 3: "3 < length rowsA" "3 < length rowsB" using la [OF a] lb [OF b] by simp_all
  have "\<exists>rows. cleanAndReformatCompetencies (?d0 # ?rest) (js ''pe'') (js ''100'') = Inr rows \<and>
      3 < length rows \<and>
      (Short_name (rows ! 3) \<in> Str ` set objectPrototypeKeys \<or>
       Parent_ID_number (rows ! 3) = Str [] \<or>
       (\<exists>j<3. ID_number (rows ! j) = Parent_ID_number (rows ! 3)) \<or>
       (\<exists>nm parentName pa.
          Short_name (rows ! 3) = Str nm \<and> subCategoryParents nm = Some parentName \<and>
          initialStructureMap (js ''PE'') parentName = Some pa \<and>
          Parent_ID_number (rows ! 3) = Str (area_id pa)))"
    using a 3(1) a' [rule_format, OF 3(1)] by (intro exI [of _ rowsA] conjI)
  moreover have "\<exists>rows. cleanAndReformatCompetencies_bc exampleHost (?d0 # ?rest)
        (js ''Physical Education'') (js ''100'') = Inr rows \<and>
      3 < length rows \<and>
      (Parent_ID_number (rows ! 3) = Str [] \<or>
       (\<exists>j<3. ID_number (rows ! j) = Parent_ID_number (rows ! 3)) \<or>
       (\<exists>nm. Short_name (rows ! 3) = Str nm \<and>
          ((nm = js ''Theoretical Understanding'' \<or> nm = js ''Practical Application'') \<and>
             Parent_ID_number (rows ! 3) = Str (js ''PE'' @ js ''-K'') \<or>
           (nm = js ''Generic Problem Solving'' \<or> nm = js ''Communication Skills'') \<and>
             Parent_ID_number (rows ! 3) = Str (js ''PE'' @ js ''-S'') \<or>
           nm = js ''Autonomy & Responsibility'' \<and>
             Parent_ID_number (rows ! 3) = Str (js ''PE'' @ js ''-C'') \<or>
           matchesInitialDigits (js ''Kk'') nm \<and>
             Parent_ID_number (rows ! 3) = Str (js ''PE'' @ js ''-K-TU'') \<or>
           matchesInitialDigits (js ''Ss'') nm \<and>
             Parent_ID_number (rows ! 3) = Str (js ''PE'' @ js ''-S-GPS'') \<or>
           matchesInitialDigits (js ''Cc'') nm \<and>
             Parent_ID_number (rows ! 3) = Str (js ''PE'' @ js ''-C-ARC''))))"
    using b 3(2) b' [rule_format, OF 3(2)] by (intro exI [of _ rowsB] conjI)
  ultimately show ?thesis by (rule conjI)
qed

section \<open>Failure\<close>















section \<open>Codes\<close>

lemma alnum_not_space: "isAlnum c \<Longrightarrow> \<not> isWhiteSpace c"
  by (auto simp: isAlnum_def isLetter_def isUpperAZ_def isLowerAZ_def isDigit_def isWhiteSpace_def)

lemma filter_dropWhile_disjoint:
  "(\<And>x. Q x \<Longrightarrow> \<not> P x) \<Longrightarrow> filter P (dropWhile Q s) = filter P s"
  by (induction s) auto

lemma filter_alnum_dropWhile: "filter isAlnum (dropWhile isWhiteSpace s) = filter isAlnum s"
  by (rule filter_dropWhile_disjoint) (auto dest: alnum_not_space)

lemma filter_nonspace_dropWhile:
  "filter (\<lambda>c. \<not> isWhiteSpace c) (dropWhile isWhiteSpace s) = filter (\<lambda>c. \<not> isWhiteSpace c) s"
  by (rule filter_dropWhile_disjoint) simp

lemma filter_alnum_trim: "filter isAlnum (trim s) = filter isAlnum s"
proof -
  have "filter isAlnum (trim s) = rev (filter isAlnum (dropWhile isWhiteSpace (rev (dropWhile isWhiteSpace s))))"
    by (simp add: trim_def rev_filter)
  also have "\<dots> = rev (filter isAlnum (rev (dropWhile isWhiteSpace s)))"
    by (simp only: filter_alnum_dropWhile)
  also have "\<dots> = filter isAlnum (dropWhile isWhiteSpace s)"
    by (simp add: rev_filter)
  also have "\<dots> = filter isAlnum s"
    by (rule filter_alnum_dropWhile)
  finally show ?thesis .
qed

lemma concat_splitWhiteSpace:
  "concat (splitWhiteSpace s) = filter (\<lambda>c. \<not> isWhiteSpace c) s"
proof (induction s rule: splitWhiteSpace.induct)
  case (1 s)
  let ?w = "takeWhile (\<lambda>c. \<not> isWhiteSpace c) s"
  have w: "filter (\<lambda>c. \<not> isWhiteSpace c) ?w = ?w"
    by (rule filter_True) (auto dest: set_takeWhileD)
  show ?case
  proof (cases "dropWhile (\<lambda>c. \<not> isWhiteSpace c) s")
    case Nil
    then have "\<forall>x\<in>set s. \<not> isWhiteSpace x" by (simp add: dropWhile_eq_Nil_conv)
    then have "filter (\<lambda>c. \<not> isWhiteSpace c) s = s" by simp
    moreover have "splitWhiteSpace s = [s]"
      by (subst splitWhiteSpace.simps) (simp only: Nil list.case)
    ultimately show ?thesis by simp
  next
    case (Cons x rest)
    then have x: "isWhiteSpace x"
      using hd_dropWhile [of "\<lambda>c. \<not> isWhiteSpace c" s] by simp
    have s: "?w @ x # rest = s"
      using takeWhile_dropWhile_id [of "\<lambda>c. \<not> isWhiteSpace c" s] by (simp only: Cons)
    have "splitWhiteSpace s = ?w # splitWhiteSpace (dropWhile isWhiteSpace rest)"
      by (subst splitWhiteSpace.simps) (simp only: Cons list.case)
    then have "concat (splitWhiteSpace s) = ?w @ concat (splitWhiteSpace (dropWhile isWhiteSpace rest))"
      by simp
    also have "\<dots> = ?w @ filter (\<lambda>c. \<not> isWhiteSpace c) (dropWhile isWhiteSpace rest)"
      by (simp only: "1.IH" [OF Cons])
    also have "\<dots> = ?w @ filter (\<lambda>c. \<not> isWhiteSpace c) rest"
      by (simp only: filter_nonspace_dropWhile)
    also have "\<dots> = filter (\<lambda>c. \<not> isWhiteSpace c) (?w @ x # rest)"
      using w x by simp
    finally show ?thesis by (simp only: s)
  qed
qed

lemma matchesLettersDigits_no_space:
  assumes "matchesLettersDigits s"
  shows "\<forall>c\<in>set s. \<not> isWhiteSpace c"
proof
  fix c assume "c \<in> set s"
  then have "c \<in> set (takeWhile isLetter s) \<or> c \<in> set (dropWhile isLetter s)"
    by (metis Un_iff set_append takeWhile_dropWhile_id)
  then have "isLetter c \<or> isDigit c"
    using assms by (auto simp: matchesLettersDigits_def list_all_iff dest: set_takeWhileD)
  then show "\<not> isWhiteSpace c"
    using letter_not_space digit_not_space by blast
qed

lemma splitWhiteSpace_single:
  "\<forall>c\<in>set s. \<not> isWhiteSpace c \<Longrightarrow> splitWhiteSpace s = [s]"
proof -
  assume "\<forall>c\<in>set s. \<not> isWhiteSpace c"
  then have d: "dropWhile (\<lambda>c. \<not> isWhiteSpace c) s = []" by simp
  show ?thesis by (subst splitWhiteSpace.simps) (simp only: d list.case)
qed

lemma acronym_length: "length (acronym ws) \<le> length ws"
  by (induction ws) (auto simp: acronym_def split: list.splits)

lemma asciiUpper_alnum: "isAlnum c \<Longrightarrow> isUpperAZ (asciiUpper c) \<or> isDigit (asciiUpper c)"
  by (auto simp: isAlnum_def isLetter_def isUpperAZ_def isLowerAZ_def isDigit_def asciiUpper_def)

lemma acronym_chars: "list_all (\<lambda>c. isUpperAZ c \<or> isDigit c) (acronym ws)"
proof (induction ws)
  case Nil
  then show ?case by (simp add: acronym_def)
next
  case (Cons w ws)
  show ?case
  proof (cases "filter isAlnum w")
    case Nil
    then show ?thesis using Cons by (simp add: acronym_def)
  next
    case (Cons c cs)
    then have "c \<in> set (filter isAlnum w)" by simp
    then have "isAlnum c" by simp
    from asciiUpper_alnum [OF this] show ?thesis
      using Cons Cons.IH by (simp add: acronym_def)
  qed
qed

lemma acronym_empty_iff: "acronym ws = [] \<longleftrightarrow> filter isAlnum (concat ws) = []"
  by (induction ws) (auto simp: acronym_def split: list.splits)

lemma filter_alnum_nonspace:
  "filter isAlnum (filter (\<lambda>c. \<not> isWhiteSpace c) s) = filter isAlnum s"
  by (induction s) (auto dest: alnum_not_space)

lemma acronym_words_empty_iff:
  "acronym (splitWhiteSpace (trim nm)) = [] \<longleftrightarrow> filter isAlnum nm = []"
proof -
  have "acronym (splitWhiteSpace (trim nm)) = [] \<longleftrightarrow>
      filter isAlnum (filter (\<lambda>c. \<not> isWhiteSpace c) (trim nm)) = []"
    by (simp only: acronym_empty_iff concat_splitWhiteSpace)
  then show ?thesis by (simp only: filter_alnum_nonspace filter_alnum_trim)
qed

lemma generateCode_multiword:
  assumes "2 \<le> length (splitWhiteSpace (trim nm))"
  shows "generateCode nm =
     (if filter isAlnum nm = [] then trim nm else acronym (splitWhiteSpace (trim nm)))"
proof -
  have "nm \<noteq> []"
  proof
    assume "nm = []"
    then have "splitWhiteSpace (trim nm) = [[]]"
      by (simp add: trim_def splitWhiteSpace.simps)
    with assms show False by simp
  qed
  moreover have "\<not> matchesLettersDigits (trim nm)"
  proof
    assume "matchesLettersDigits (trim nm)"
    from splitWhiteSpace_single [OF matchesLettersDigits_no_space [OF this]] assms
    show False by simp
  qed
  ultimately show ?thesis
    using acronym_words_empty_iff [of nm] by (simp add: generateCode_def Let_def)
qed

text \<open>
  C6, as stated, fails: when no word of the name has a character of \<open>[a-zA-Z0-9]\<close>
  the acronym is empty and \<open>generateCode\<close> returns the trimmed name itself. The name
  below is two Arabic words (the program name of one of the curated entries, without its
  boilerplate); the result has 13 code units.
\<close>

theorem acronym_bounds_counterexample:
  "generateCode [1575, 1583, 1575, 1585, 1577, 32, 1575, 1604, 1575, 1593, 1605, 1575, 1604] =
     [1575, 1583, 1575, 1585, 1577, 32, 1575, 1604, 1575, 1593, 1605, 1575, 1604] \<and>
   splitWhiteSpace (trim [1575, 1583, 1575, 1585, 1577, 32, 1575, 1604, 1575, 1593, 1605, 1575, 1604]) =
     [[1575, 1583, 1575, 1585, 1577], [1575, 1604, 1575, 1593, 1605, 1575, 1604]] \<and>
   \<not> length (generateCode [1575, 1583, 1575, 1585, 1577, 32, 1575, 1604, 1575, 1593, 1605, 1575, 1604])
       \<le> length (splitWhiteSpace
            (trim [1575, 1583, 1575, 1585, 1577, 32, 1575, 1604, 1575, 1593, 1605, 1575, 1604]))"
  by (simp add: js_eval)

text \<open>
  C6, amended. For every name of two or more whitespace-separated words, if some character
  of the name is an ASCII letter or digit, \<open>generateCode\<close> returns a non-empty string
  that is at most as long as the number of words and whose every character is an upper-case
  ASCII letter or a digit; otherwise it returns the trimmed name unchanged.
\<close>

theorem acronym_bounds:
  assumes "2 \<le> length (splitWhiteSpace (trim nm))"
  shows "if (\<exists>c\<in>set nm. isAlnum c)
         then generateCode nm \<noteq> [] \<and>
              length (generateCode nm) \<le> length (splitWhiteSpace (trim nm)) \<and>
              list_all (\<lambda>c. isUpperAZ c \<or> isDigit c) (generateCode nm)
         else generateCode nm = trim nm"
proof (cases "filter isAlnum nm = []")
  case True
  then have "\<not> (\<exists>c\<in>set nm. isAlnum c)" by (simp add: filter_empty_conv)
  then show ?thesis using True generateCode_multiword [OF assms] by simp
next
  case False
  then have e: "\<exists>c\<in>set nm. isAlnum c" by (simp add: filter_empty_conv)
  have g: "generateCode nm = acronym (splitWhiteSpace (trim nm))"
    using False generateCode_multiword [OF assms] by simp
  have "generateCode nm \<noteq> []"
    using False acronym_words_empty_iff [of nm] by (simp add: g)
  moreover have "length (generateCode nm) \<le> length (splitWhiteSpace (trim nm))"
    by (simp only: g acronym_length)
  moreover have "list_all (\<lambda>c. isUpperAZ c \<or> isDigit c) (generateCode nm)"
    by (simp only: g acronym_chars)
  ultimately show ?thesis using e by simp
qed

theorem acronym_bounds_witness:
  "2 \<le> length (splitWhiteSpace (trim (js ''Physical Education''))) \<and>
   (\<exists>c\<in>set (js ''Physical Education''). isAlnum c) \<and>
   generateCode (js ''Physical Education'') \<noteq> [] \<and>
   length (generateCode (js ''Physical Education'')) \<le> length (splitWhiteSpace (trim (js ''Physical Education''))) \<and>
   list_all (\<lambda>c. isUpperAZ c \<or> isDigit c) (generateCode (js ''Physical Education''))"
proof -
  have h: "2 \<le> length (splitWhiteSpace (trim (js ''Physical Education'')))"
    by (simp add: js_eval)
  have a: "\<exists>c\<in>set (js ''Physical Education''). isAlnum c"
    by (simp add: js_eval)
  from acronym_bounds [OF h] a h show ?thesis by simp
qed

section \<open>Serialization\<close>

lemma includesStr_single: "includesStr v [c] \<longleftrightarrow> c \<in> set v"
  by (induction v) (auto simp: startsWith_def)

lemma replaceAll_quote:
  "replaceAll [34] [34, 34] v = concat (map (\<lambda>c. if c = 34 then [34, 34] else [c]) v)"
  by (induction v) (auto simp: startsWith_def)

lemma csvValue_spec:
  "csvValue row col =
     (if specNeedsQuotes (fieldText row col) then specQuoted (fieldText row col) else fieldText row col)"
proof -
  have t: "(if rowGet row col \<noteq> Undefined then String_js (rowGet row col) else []) = fieldText row col"
    by (cases "rowGet row col") (simp_all add: fieldText_def)
  have c: "js '','' = [44]" "js ''\"'' = [34]" "js '' '' = [32]" "js ''['' = [91]" "js ''\"\"'' = [34, 34]"
    "of_char CHR '','' = (44::nat)" "of_char CHR ''\"'' = (34::nat)" "of_char CHR '' '' = (32::nat)"
    "of_char CHR ''['' = (91::nat)"
    by (simp_all add: js_def)
  show ?thesis
    unfolding csvValue_def t Let_def specNeedsQuotes_def specQuoted_def c
    by (simp add: includesStr_single replaceAll_quote)
qed

lemma specQuoted_longer: "length v < length (specQuoted v)"
proof -
  have "length v \<le> length (concat (map (\<lambda>c. if c = of_char CHR 0x22 then js [CHR 0x22, CHR 0x22] else [c]) v))"
    by (induction v) (auto simp: js_def)
  then show ?thesis by (simp add: specQuoted_def js_def)
qed

lemma foldl_append_concat:
  "foldl (\<lambda>acc x. acc @ f x) init xs = init @ concat (map f xs)"
  by (induction xs arbitrary: init) simp_all

text \<open>
  C7. In every row \<open>toCsvString\<close> serializes, a field is written between double quotes,
  with each double quote of its value doubled, if and only if the value contains a comma, a
  double quote, a newline, a space or an opening square bracket; otherwise the value is
  written unchanged. The output is the header line followed by one line for each row, the
  fields of a line being those of the fourteen columns joined by commas.
\<close>

theorem csv_quoting:
  "csvValue row col =
     (if specNeedsQuotes (fieldText row col) then specQuoted (fieldText row col) else fieldText row col) \<and>
   (specNeedsQuotes (fieldText row col) \<longleftrightarrow> csvValue row col = specQuoted (fieldText row col)) \<and>
   toCsvString data =
     (if data = [] then []
      else join (js '','') TARGET_COLUMNS @ [10] @
           concat (map (\<lambda>r. join (js '','') (map (csvValue r) TARGET_COLUMNS) @ [10]) data))"
proof -
  have "fieldText row col \<noteq> specQuoted (fieldText row col)"
    using specQuoted_longer [of "fieldText row col"] by auto
  then have "specNeedsQuotes (fieldText row col) \<longleftrightarrow> csvValue row col = specQuoted (fieldText row col)"
    by (simp add: csvValue_spec)
  moreover have "toCsvString data =
     (if data = [] then []
      else join (js '','') TARGET_COLUMNS @ [10] @
           concat (map (\<lambda>r. join (js '','') (map (csvValue r) TARGET_COLUMNS) @ [10]) data))"
    by (simp add: toCsvString_def foldl_append_concat)
  ultimately show ?thesis using csvValue_spec by blast
qed

text \<open>The fields of a framework row of the first variant, as they are written.\<close>

lemma csv_example:
  \<open>map (csvValue (frameworkRow \<lparr>name = js ''Physical Education'', description = js ''say "hi"''\<rparr> (js ''100'')))
     TARGET_COLUMNS =
   [[], js ''100'', js ''"Physical Education"'', js ''"say ""hi"""'', js ''1'',
    js ''"Not yet competent,Competent"'',
    js ''"[{""scaleid"":""2""},{""id"":2,""scaledefault"":1,""proficient"":1}]"'',
    [], [], [], [], [], js ''1'',
    js ''"competency,competency,competency,competency,competency"'']\<close>
  by (simp add: csvValue_def rowGet_def TARGET_COLUMNS_def row_eval js_def startsWith_def decimal.simps Let_def)

end
